theory Spec2Isabelle
  imports Complex_Main "HOL-Library.AList"
begin

section \<open>Strings as the source reads them\<close>

text \<open>
  Source strings are sequences of UTF-16 code units. They are modelled as
  \<^typ>\<open>string\<close>, one \<^typ>\<open>char\<close> per code unit, so the model covers the strings
  whose code units are below 256 (the Latin-1 range); on these the definitions below
  agree with JavaScript. White space, as the class \<open>\s\<close>, \<open>trim\<close> and \<open>trimEnd\<close> read
  it, is tab, line feed, vertical tab, form feed, carriage return, space and the
  no-break space U+00A0.
\<close>

definition isSpace :: "char \<Rightarrow> bool" where
  "isSpace c = (c = CHR '' '' \<or> c = CHR 0x09 \<or> c = CHR 0x0A \<or> c = CHR 0x0B
                \<or> c = CHR 0x0C \<or> c = CHR 0x0D \<or> c = CHR 0xA0)"

definition trimStart :: "string \<Rightarrow> string" where
  "trimStart s = dropWhile isSpace s"

definition trimEnd :: "string \<Rightarrow> string" where
  "trimEnd s = rev (dropWhile isSpace (rev s))"

definition trim :: "string \<Rightarrow> string" where
  "trim s = trimStart (trimEnd s)"

text \<open>The character class \<open>[ \t]\<close>.\<close>

definition isBlank :: "char \<Rightarrow> bool" where
  "isBlank c = (c = CHR '' '' \<or> c = CHR 0x09)"

text \<open>The line feed the sources split and join on.\<close>

definition nl :: char where
  "nl = CHR 0x0A"

text \<open>
  \<open>String.prototype.toLowerCase\<close>: the letters \<open>A\<close> to \<open>Z\<close> and the capital letters
  U+00C0 to U+00DE (all but the multiplication sign U+00D7) move up by 32; every other
  code unit below 256 stays.
\<close>

definition upperLatin1 :: string where
  "upperLatin1 =
     ''ABCDEFGHIJKLMNOPQRSTUVWXYZ'' @
     [CHR 0xC0, CHR 0xC1, CHR 0xC2, CHR 0xC3, CHR 0xC4, CHR 0xC5, CHR 0xC6, CHR 0xC7,
      CHR 0xC8, CHR 0xC9, CHR 0xCA, CHR 0xCB, CHR 0xCC, CHR 0xCD, CHR 0xCE, CHR 0xCF,
      CHR 0xD0, CHR 0xD1, CHR 0xD2, CHR 0xD3, CHR 0xD4, CHR 0xD5, CHR 0xD6,
      CHR 0xD8, CHR 0xD9, CHR 0xDA, CHR 0xDB, CHR 0xDC, CHR 0xDD, CHR 0xDE]"

definition lowerLatin1 :: string where
  "lowerLatin1 =
     ''abcdefghijklmnopqrstuvwxyz'' @
     [CHR 0xE0, CHR 0xE1, CHR 0xE2, CHR 0xE3, CHR 0xE4, CHR 0xE5, CHR 0xE6, CHR 0xE7,
      CHR 0xE8, CHR 0xE9, CHR 0xEA, CHR 0xEB, CHR 0xEC, CHR 0xED, CHR 0xEE, CHR 0xEF,
      CHR 0xF0, CHR 0xF1, CHR 0xF2, CHR 0xF3, CHR 0xF4, CHR 0xF5, CHR 0xF6,
      CHR 0xF8, CHR 0xF9, CHR 0xFA, CHR 0xFB, CHR 0xFC, CHR 0xFD, CHR 0xFE]"

definition toLowerChar :: "char \<Rightarrow> char" where
  "toLowerChar c =
     (case map_of (zip upperLatin1 lowerLatin1) c of
        Some l \<Rightarrow> l
      | None \<Rightarrow> c)"

definition toLowerCase :: "string \<Rightarrow> string" where
  "toLowerCase s = map toLowerChar s"

text \<open>
  The \<open>i\<close> flag of a regular expression (without the \<open>u\<close> flag) lets a letter of the
  pattern match itself in either case. The patterns of the sources are ASCII, and no
  code unit outside ASCII is canonicalised to an ASCII letter, so only \<open>A\<close> to \<open>Z\<close> are
  folded.
\<close>

definition foldAscii :: "char \<Rightarrow> char" where
  "foldAscii c =
     (case map_of (zip ''ABCDEFGHIJKLMNOPQRSTUVWXYZ'' ''abcdefghijklmnopqrstuvwxyz'') c of
        Some l \<Rightarrow> l
      | None \<Rightarrow> c)"

definition startsWith :: "string \<Rightarrow> string \<Rightarrow> bool" where
  "startsWith p s = (take (length p) s = p)"

definition startsWithCI :: "string \<Rightarrow> string \<Rightarrow> bool" where
  "startsWithCI p s = (map foldAscii (take (length p) s) = map foldAscii p)"

text \<open>\<open>s.split("\n")\<close>: an empty string gives one empty line.\<close>

fun splitNl :: "string \<Rightarrow> string list" where
  "splitNl [] = [[]]"
| "splitNl (c # cs) =
     (if c = nl then [] # splitNl cs
      else (case splitNl cs of
              [] \<Rightarrow> [[c]]
            | l # ls \<Rightarrow> (c # l) # ls))"

text \<open>\<open>xs.join(sep)\<close>.\<close>

fun joinWith :: "string \<Rightarrow> string list \<Rightarrow> string" where
  "joinWith sep [] = []"
| "joinWith sep [x] = x"
| "joinWith sep (x # y # ys) = x @ sep @ joinWith sep (y # ys)"

text \<open>\<open>s.split(/\s+/).filter(Boolean)\<close>: the maximal runs of characters that are not
  white space, in order. The first argument is the run read so far.\<close>

fun splitWsFrom :: "string \<Rightarrow> string \<Rightarrow> string list" where
  "splitWsFrom cur [] = (if cur = [] then [] else [cur])"
| "splitWsFrom cur (c # cs) =
     (if isSpace c
      then (if cur = [] then splitWsFrom [] cs else cur # splitWsFrom [] cs)
      else splitWsFrom (cur @ [c]) cs)"

definition splitWs :: "string \<Rightarrow> string list" where
  "splitWs s = splitWsFrom [] s"

text \<open>
  \<open>s.replace(/[ \t]{2,}/g, " ")\<close>: every maximal run of two or more blanks becomes one
  space; a single blank is kept as it is. The first argument is the run of blanks read
  so far.
\<close>

fun flushRun :: "string \<Rightarrow> string" where
  "flushRun [] = []"
| "flushRun [b] = [b]"
| "flushRun (b # b' # bs) = '' ''"

fun collapseBlanksFrom :: "string \<Rightarrow> string \<Rightarrow> string" where
  "collapseBlanksFrom run [] = flushRun run"
| "collapseBlanksFrom run (c # cs) =
     (if isBlank c then collapseBlanksFrom (run @ [c]) cs
      else flushRun run @ c # collapseBlanksFrom [] cs)"

definition collapseBlanks :: "string \<Rightarrow> string" where
  "collapseBlanks s = collapseBlanksFrom [] s"

text \<open>\<open>s.replace(/[ \t]+\n/g, "\n")\<close>: a run of blanks that a line feed follows is dropped.\<close>

fun stripBlanksBeforeNlFrom :: "string \<Rightarrow> string \<Rightarrow> string" where
  "stripBlanksBeforeNlFrom run [] = run"
| "stripBlanksBeforeNlFrom run (c # cs) =
     (if isBlank c then stripBlanksBeforeNlFrom (run @ [c]) cs
      else if c = nl then c # stripBlanksBeforeNlFrom [] cs
      else run @ c # stripBlanksBeforeNlFrom [] cs)"

definition stripBlanksBeforeNl :: "string \<Rightarrow> string" where
  "stripBlanksBeforeNl s = stripBlanksBeforeNlFrom [] s"

text \<open>\<open>s.replace(/\n{2,}/g, "\n")\<close>: a run of line feeds becomes one line feed.\<close>

fun collapseNewlines :: "string \<Rightarrow> string" where
  "collapseNewlines [] = []"
| "collapseNewlines [c] = [c]"
| "collapseNewlines (c # d # cs) =
     (if c = nl \<and> d = nl then collapseNewlines (d # cs)
      else c # collapseNewlines (d # cs))"

text \<open>\<open>s.replace(/[ \t]+/g, " ")\<close>: every run of blanks becomes one space.\<close>

fun blanksToSpace :: "string \<Rightarrow> string" where
  "blanksToSpace [] = []"
| "blanksToSpace [c] = (if isBlank c then '' '' else [c])"
| "blanksToSpace (c # d # cs) =
     (if isBlank c then (if isBlank d then blanksToSpace (d # cs) else CHR '' '' # blanksToSpace (d # cs))
      else c # blanksToSpace (d # cs))"

text \<open>Whether a string occurs in another, ignoring ASCII case.\<close>

fun containsCI :: "string \<Rightarrow> string \<Rightarrow> bool" where
  "containsCI p [] = (p = [])"
| "containsCI p (c # cs) = (startsWithCI p (c # cs) \<or> containsCI p cs)"

text \<open>
  \<open>s.replace(re, "")\<close> for a global, case-insensitive pattern that is a fixed non-empty
  string: occurrences are removed from left to right and do not overlap. The first
  argument counts the characters of the current occurrence still to skip.
\<close>

fun removeAllCIFrom :: "nat \<Rightarrow> string \<Rightarrow> string \<Rightarrow> string" where
  "removeAllCIFrom k p [] = []"
| "removeAllCIFrom (Suc k) p (c # cs) = removeAllCIFrom k p cs"
| "removeAllCIFrom 0 p (c # cs) =
     (if startsWithCI p (c # cs) then removeAllCIFrom (length p - 1) p cs
      else c # removeAllCIFrom 0 p cs)"

definition removeAllCI :: "string \<Rightarrow> string \<Rightarrow> string" where
  "removeAllCI p s = removeAllCIFrom 0 p s"

text \<open>A JavaScript value of type \<open>string | undefined\<close> is truthy when it is a string that
  is not empty.\<close>

definition truthy :: "string option \<Rightarrow> bool" where
  "truthy v = (case v of None \<Rightarrow> False | Some s \<Rightarrow> s \<noteq> [])"

text \<open>\<open>v?.trim() || undefined\<close>.\<close>

definition trimmedOrNone :: "string option \<Rightarrow> string option" where
  "trimmedOrNone v = (case v of None \<Rightarrow> None | Some s \<Rightarrow> (if trim s = [] then None else Some (trim s)))"

text \<open>\<open>a ?? b\<close> and \<open>a ?? b ?? c\<close>.\<close>

definition orElse :: "'a option \<Rightarrow> 'a option \<Rightarrow> 'a option" where
  "orElse a b = (case a of Some x \<Rightarrow> Some x | None \<Rightarrow> b)"

definition firstDefined :: "string option \<Rightarrow> string option \<Rightarrow> string option \<Rightarrow> string option" where
  "firstDefined a b c = orElse a (orElse b c)"

text \<open>\<open>v ?? ""\<close>.\<close>

definition orEmpty :: "string option \<Rightarrow> string" where
  "orEmpty v = (case v of None \<Rightarrow> [] | Some s \<Rightarrow> s)"

section \<open>Media tokens: \<open>src/media/parse.ts\<close>\<close>

text \<open>
  \<open>normalizeMediaSource\<close>: a leading \<open>file://\<close> is removed (the first occurrence of
  \<open>file://\<close> in a string that starts with it is that prefix).
\<close>

definition normalizeMediaSource :: "string \<Rightarrow> string" where
  "normalizeMediaSource src = (if startsWith ''file://'' src then drop 7 src else src)"

text \<open>
  \<open>cleanCandidate\<close>: the leading run of backtick, double quote, quote, \<open>[\<close>, \<open>{\<close>, \<open>(\<close> is
  removed, then the trailing run of backtick, double quote, quote, backslash, \<open>}\<close>, \<open>)\<close>,
  \<open>]\<close>, comma.
\<close>

definition isOpenWrap :: "char \<Rightarrow> bool" where
  "isOpenWrap c = (c \<in> set [CHR 0x60, CHR 0x22, CHR 0x27, CHR ''['', CHR ''{'', CHR ''(''])"

definition isCloseWrap :: "char \<Rightarrow> bool" where
  "isCloseWrap c =
     (c \<in> set [CHR 0x60, CHR 0x22, CHR 0x27, CHR 0x5C, CHR ''}'', CHR '')'', CHR '']'', CHR '',''])"

definition cleanCandidate :: "string \<Rightarrow> string" where
  "cleanCandidate raw = rev (dropWhile isCloseWrap (rev (dropWhile isOpenWrap raw)))"

definition isValidMedia :: "string \<Rightarrow> bool" where
  "isValidMedia candidate =
     (if candidate = [] then False
      else if length candidate > 1024 then False
      else if list_ex isSpace candidate then False
      else (startsWithCI ''http://'' candidate \<or> startsWithCI ''https://'' candidate
            \<or> startsWith ''/'' candidate \<or> startsWith ''./'' candidate))"

definition isInsideFence :: "(nat \<times> nat) list \<Rightarrow> nat \<Rightarrow> bool" where
  "isInsideFence fenceSpans offset = list_ex (\<lambda>(start, end). start \<le> offset \<and> offset < end) fenceSpans"

text \<open>
  \<open>MEDIA_TOKEN_RE\<close> is \<open>\bMEDIA:\s*\<close>, an optional backtick, the group \<open>([^\n]+)\<close> and
  an optional backtick, with the flags \<open>gi\<close>; it is matched against one line (a string
  without line feed). The group \<open>[^\n]+\<close> is greedy and runs to the end of the line, so a
  line has at most one match: the leftmost position where the word \<open>MEDIA:\<close> (in any
  case) starts at a word boundary and at least one character follows it.
  \<open>findMediaToken\<close> returns the index of the match and the text after \<open>MEDIA:\<close>; its
  first argument is the character before the current position.
\<close>

definition isWordChar :: "char \<Rightarrow> bool" where
  "isWordChar c =
     (c \<in> set ''abcdefghijklmnopqrstuvwxyzABCDEFGHIJKLMNOPQRSTUVWXYZ0123456789_'')"

definition boundaryBeforeWord :: "char option \<Rightarrow> bool" where
  "boundaryBeforeWord prev = (case prev of None \<Rightarrow> True | Some p \<Rightarrow> \<not> isWordChar p)"

fun findMediaToken :: "char option \<Rightarrow> string \<Rightarrow> nat \<Rightarrow> (nat \<times> string) option" where
  "findMediaToken prev [] i = None"
| "findMediaToken prev (c # cs) i =
     (if boundaryBeforeWord prev \<and> startsWithCI ''MEDIA:'' (c # cs) \<and> drop 6 (c # cs) \<noteq> []
      then Some (i, drop 6 (c # cs))
      else findMediaToken (Some c) cs (Suc i))"

text \<open>
  The captured group, from the text after \<open>MEDIA:\<close> (not empty). \<open>\s*\<close> takes the white
  space and the optional backtick is taken when something follows it; when nothing but
  white space follows \<open>MEDIA:\<close>, the match backtracks and the group is the last white
  space character.
\<close>

definition mediaPayload :: "string \<Rightarrow> string" where
  "mediaPayload rest =
     (let r = dropWhile isSpace rest
      in if r = [] then [last rest]
         else if hd r = CHR 0x60 \<and> tl r \<noteq> [] then tl r
         else r)"

text \<open>The loop over the parts of one payload: the media collected so far,
  \<open>hasValidMedia\<close> and \<open>invalidParts\<close>.\<close>

fun collectParts ::
  "string list \<Rightarrow> string list \<Rightarrow> bool \<Rightarrow> string list \<Rightarrow> string list \<times> bool \<times> string list" where
  "collectParts [] media hasValidMedia invalidParts = (media, hasValidMedia, invalidParts)"
| "collectParts (part # parts) media hasValidMedia invalidParts =
     (let candidate = normalizeMediaSource (cleanCandidate part)
      in if isValidMedia candidate
         then collectParts parts (media @ [candidate]) True invalidParts
         else collectParts parts media hasValidMedia (invalidParts @ [part]))"

text \<open>
  The body of the loop for a line that has a match at \<open>start\<close>: the media list after the
  line and the cleaned line. The pieces are the text before the match, the invalid
  parts joined by a space when the line gave a valid media, and the (empty) text after
  the match.
\<close>

definition processMatch :: "string \<Rightarrow> nat \<Rightarrow> string \<Rightarrow> string list \<Rightarrow> string list \<times> string" where
  "processMatch line start rest media =
     (let parts = splitWs (mediaPayload rest);
          (media', hasValidMedia, invalidParts) = collectParts parts media False [];
          pieces = [take start line]
                   @ (if hasValidMedia \<and> length invalidParts > 0
                      then [joinWith '' '' invalidParts] else [])
                   @ [drop (length line) line]
      in (media', trim (collapseBlanks (concat pieces))))"

text \<open>The loop over the lines: \<open>lineOffset\<close>, \<open>media\<close>, \<open>foundMediaToken\<close> and
  \<open>keptLines\<close> are threaded through.\<close>

fun processLines ::
  "(nat \<times> nat) list \<Rightarrow> string list \<Rightarrow> nat \<Rightarrow> string list \<Rightarrow> bool \<Rightarrow> string list
   \<Rightarrow> string list \<times> bool \<times> string list" where
  "processLines fenceSpans [] lineOffset media foundMediaToken keptLines =
     (media, foundMediaToken, keptLines)"
| "processLines fenceSpans (line # rest) lineOffset media foundMediaToken keptLines =
     (if isInsideFence fenceSpans lineOffset
      then processLines fenceSpans rest (lineOffset + length line + 1) media foundMediaToken
             (keptLines @ [line])
      else (case findMediaToken None line 0 of
              None \<Rightarrow>
                processLines fenceSpans rest (lineOffset + length line + 1) media foundMediaToken
                  (keptLines @ [line])
            | Some (start, after) \<Rightarrow>
                (let (media', cleanedLine) = processMatch line start after media
                 in processLines fenceSpans rest (lineOffset + length line + 1) media' True
                      (if cleanedLine \<noteq> [] then keptLines @ [cleanedLine] else keptLines))))"

record split_result =
  sText :: string
  sMediaUrls :: "string list option"
  sMediaUrl :: "string option"
  sAudioAsVoice :: "bool option"

definition audioTag :: string where
  "audioTag = ''[[audio_as_voice]]''"

text \<open>
  \<open>splitMediaFromOutput\<close>. \<open>parseFenceSpans\<close> (\<open>../markdown/fences.js\<close>) is not part of
  the sources; it is the parameter \<open>parseFenceSpans\<close>, from a text to the spans of its
  fenced code blocks.
\<close>

definition collectMedia :: "(string \<Rightarrow> (nat \<times> nat) list) \<Rightarrow> string \<Rightarrow> string list \<times> bool \<times> string list" where
  "collectMedia parseFenceSpans trimmedRaw =
     processLines (parseFenceSpans trimmedRaw) (splitNl trimmedRaw) 0 [] False []"

definition splitMediaFromOutput :: "(string \<Rightarrow> (nat \<times> nat) list) \<Rightarrow> string \<Rightarrow> split_result" where
  "splitMediaFromOutput parseFenceSpans raw =
     (let trimmedRaw = trimEnd raw
      in if trim trimmedRaw = []
         then \<lparr>sText = [], sMediaUrls = None, sMediaUrl = None, sAudioAsVoice = None\<rparr>
         else
           (let (media, foundMediaToken, keptLines) = collectMedia parseFenceSpans trimmedRaw;
                cleaned0 = trim (collapseNewlines (collapseBlanks
                             (stripBlanksBeforeNl (joinWith [nl] keptLines))));
                hasAudioAsVoice = containsCI audioTag cleaned0;
                cleanedText =
                  (if hasAudioAsVoice
                   then trim (collapseNewlines (blanksToSpace (removeAllCI audioTag cleaned0)))
                   else cleaned0)
            in if length media = 0
               then \<lparr>sText = (if foundMediaToken \<or> hasAudioAsVoice then cleanedText else trimmedRaw),
                      sMediaUrls = None, sMediaUrl = None,
                      sAudioAsVoice = (if hasAudioAsVoice then Some True else None)\<rparr>
               else \<lparr>sText = cleanedText, sMediaUrls = Some media, sMediaUrl = Some (hd media),
                      sAudioAsVoice = (if hasAudioAsVoice then Some True else None)\<rparr>))"

text \<open>A text without fenced code blocks.\<close>

definition noFences :: "string \<Rightarrow> (nat \<times> nat) list" where
  "noFences s = []"

text \<open>The candidate a part of a payload stands for: unwrapped, and without a leading
  \<open>file://\<close>.\<close>

definition candidateOf :: "string \<Rightarrow> string" where
  "candidateOf part = normalizeMediaSource (cleanCandidate part)"

text \<open>The candidates of a text, in order: those of the payload of every line that is not
  inside a fenced code block and has a \<open>MEDIA:\<close> token.\<close>

fun lineCandidates :: "(nat \<times> nat) list \<Rightarrow> string list \<Rightarrow> nat \<Rightarrow> string list" where
  "lineCandidates fenceSpans [] lineOffset = []"
| "lineCandidates fenceSpans (line # rest) lineOffset =
     (if isInsideFence fenceSpans lineOffset then []
      else (case findMediaToken None line 0 of
              None \<Rightarrow> []
            | Some (start, after) \<Rightarrow> map candidateOf (splitWs (mediaPayload after))))
     @ lineCandidates fenceSpans rest (lineOffset + length line + 1)"

text \<open>The valid media candidates of an input, in order of appearance.\<close>

definition validCandidates :: "(string \<Rightarrow> (nat \<times> nat) list) \<Rightarrow> string \<Rightarrow> string list" where
  "validCandidates parseFenceSpans raw =
     filter isValidMedia
       (lineCandidates (parseFenceSpans (trimEnd raw)) (splitNl (trimEnd raw)) 0)"


section \<open>Command reply: the argv handed to the runner\<close>

text \<open>
  \<open>rpcArgvForRun\<close> of \<open>runCommandReply\<close>. \<open>finalArgv\<close> is the argv the agent's
  \<open>buildArgs\<close> returned, with the body marker removed; \<open>promptIndex\<close> is the result of
  \<open>findIndex\<close> for the prompt argument (\<open>None\<close> for \<open>-1\<close>).
\<close>

text \<open>\<open>xs.indexOf(x)\<close>; \<open>None\<close> for \<open>-1\<close>.\<close>

fun indexOf :: "'a \<Rightarrow> 'a list \<Rightarrow> nat option" where
  "indexOf x [] = None"
| "indexOf x (y # ys) =
     (if y = x then Some 0
      else (case indexOf x ys of None \<Rightarrow> None | Some i \<Rightarrow> Some (Suc i)))"

text \<open>\<open>xs.includes(x)\<close>.\<close>

definition includesElem :: "'a list \<Rightarrow> 'a \<Rightarrow> bool" where
  "includesElem xs x = (x \<in> set xs)"

text \<open>\<open>xs[i]\<close> is truthy: the element exists and is not the empty string.\<close>

definition truthyAt :: "string list \<Rightarrow> nat \<Rightarrow> bool" where
  "truthyAt xs i = (i < length xs \<and> xs ! i \<noteq> [])"

text \<open>\<open>copy.splice(rpcPromptIndex, 1)\<close>, where \<open>rpcPromptIndex\<close> is \<open>promptIndex\<close> when that
  is not negative and \<open>finalArgv.length - 1\<close> otherwise (a splice at \<open>-1\<close> removes the last
  element, and nothing from an empty array).\<close>

definition removePrompt :: "string list \<Rightarrow> nat option \<Rightarrow> string list" where
  "removePrompt finalArgv promptIndex =
     (case promptIndex of
        Some i \<Rightarrow> take i finalArgv @ drop (Suc i) finalArgv
      | None \<Rightarrow> butlast finalArgv)"

definition rpcArgvForRun :: "string list \<Rightarrow> nat option \<Rightarrow> string list" where
  "rpcArgvForRun finalArgv promptIndex =
     (let copy = removePrompt finalArgv promptIndex;
          modeIdx = indexOf ''--mode'' copy
      in if modeIdx \<noteq> None \<and> truthyAt copy (the modeIdx + 1)
         then take (the modeIdx) copy @ [''--mode'', ''rpc''] @ drop (the modeIdx + 2) copy
         else if \<not> includesElem copy ''--mode''
         then take (length copy - 1) copy @ [''--mode'', ''rpc''] @ drop (length copy - 1) copy
         else copy)"

text \<open>
  The \<open>rpcArgv\<close> that \<open>runCommandReply\<close> builds before the run and only logs:
  \<open>finalArgv\<close> without the element at \<open>bodyIdx\<close> (\<open>promptIndex\<close>, or
  \<open>max(finalArgv.length - 1, 0)\<close>), the value after the first \<open>--mode\<close> overwritten, and
  the pair pushed otherwise.
\<close>

definition rpcArgvLogged :: "string list \<Rightarrow> nat option \<Rightarrow> string list" where
  "rpcArgvLogged finalArgv promptIndex =
     (let rpcArgv = removePrompt finalArgv promptIndex;
          modeIdx = indexOf ''--mode'' rpcArgv
      in if modeIdx \<noteq> None \<and> truthyAt rpcArgv (the modeIdx + 1)
         then rpcArgv[the modeIdx + 1 := ''rpc'']
         else rpcArgv @ [''--mode'', ''rpc''])"

text \<open>The argv holds \<open>--mode\<close> directly followed by \<open>rpc\<close>.\<close>

fun hasRpcMode :: "string list \<Rightarrow> bool" where
  "hasRpcMode (a # b # rest) = ((a = ''--mode'' \<and> b = ''rpc'') \<or> hasRpcMode (b # rest))"
| "hasRpcMode _ = False"

text \<open>The first \<open>--mode\<close> of an argv has no value: it is the last element, or the empty
  string follows it.\<close>

definition danglingMode :: "string list \<Rightarrow> bool" where
  "danglingMode argv =
     (case indexOf ''--mode'' argv of
        None \<Rightarrow> False
      | Some i \<Rightarrow> \<not> truthyAt argv (i + 1))"

section \<open>Command reply: the stream reducer\<close>

record reply_payload =
  pText :: "string option"
  pMediaUrl :: "string option"
  pMediaUrls :: "string list option"

text \<open>
  What the reducer is configured with: whether \<open>onPartialReply\<close> was supplied, the
  constant \<open>TOOL_RESULT_FLUSH_COUNT\<close> and the function \<open>formatToolAggregate\<close> of
  \<open>./tool-meta.js\<close> (not part of the sources), and \<open>parseFenceSpans\<close>.
\<close>

record stream_cfg =
  hasOnPartialReply :: bool
  toolResultFlushCount :: int
  formatToolAggregate :: "string option \<Rightarrow> string list \<Rightarrow> string"
  fenceSpansOf :: "string \<Rightarrow> (nat \<times> nat) list"

text \<open>
  The variables the callbacks of one run close over, and \<open>sent\<close>: the payloads handed to
  \<open>onPartialReply\<close>, in order. \<open>pendingTimer\<close> is whether a debounce timer is set.
\<close>

record stream_state =
  pendingToolName :: "string option"
  pendingMetas :: "string list"
  pendingTimer :: bool
  streamedAny :: bool
  lastStreamedAssistant :: "string option"
  sent :: "reply_payload list"

definition initialStream :: stream_state where
  "initialStream =
     \<lparr>pendingToolName = None, pendingMetas = [], pendingTimer = False, streamedAny = False,
      lastStreamedAssistant = None, sent = []\<rparr>"

text \<open>The payload both callbacks hand over: the cleaned text, and the media found when
  there is any.\<close>

definition partialPayload :: "stream_cfg \<Rightarrow> string \<Rightarrow> reply_payload" where
  "partialPayload cfg text =
     (let r = splitMediaFromOutput (fenceSpansOf cfg) text
      in \<lparr>pText = Some (sText r), pMediaUrl = None,
          pMediaUrls = (case sMediaUrls r of
                          Some mediaFound \<Rightarrow> (if length mediaFound > 0 then Some mediaFound else None)
                        | None \<Rightarrow> None)\<rparr>)"

definition flushPendingTool :: "stream_cfg \<Rightarrow> stream_state \<Rightarrow> stream_state" where
  "flushPendingTool cfg st =
     (if \<not> hasOnPartialReply cfg then st
      else if \<not> truthy (pendingToolName st) \<and> length (pendingMetas st) = 0 then st
      else st\<lparr>sent := sent st @ [partialPayload cfg
                   (formatToolAggregate cfg (pendingToolName st) (pendingMetas st))],
              streamedAny := True,
              pendingToolName := None,
              pendingMetas := [],
              pendingTimer := False\<rparr>)"

text \<open>\<open>streamAssistantFinal\<close>, from the \<open>text\<close> values of the text blocks of an assistant
  message.\<close>

definition streamAssistantFinal :: "stream_cfg \<Rightarrow> string list \<Rightarrow> stream_state \<Rightarrow> stream_state" where
  "streamAssistantFinal cfg blocks st =
     (if \<not> hasOnPartialReply cfg then st
      else (let textBlocks = filter (\<lambda>b. b \<noteq> []) (map trim blocks)
            in if length textBlocks = 0 then st
               else (let combined = trim (joinWith [nl] textBlocks)
                     in if combined = [] \<or> Some combined = lastStreamedAssistant st then st
                        else st\<lparr>lastStreamedAssistant := Some combined,
                                sent := sent st @ [partialPayload cfg combined],
                                streamedAny := True\<rparr>)))"

text \<open>
  What \<open>onEvent\<close> dispatches on, after \<open>JSON.parse\<close> of the line and the helpers
  \<open>inferToolName\<close> and \<open>inferToolMeta\<close>: a \<open>message\<close> or \<open>message_end\<close> event whose message
  has a tool-result role and an array content (with the inferred tool name and meta); an
  event that carries an assistant message (with the \<open>text\<close> values of its text blocks);
  any other line. \<open>DebounceElapsed\<close> is the debounce timer firing between two lines. The
  events forwarded to the agent bus have no effect on the payloads and are left out.
\<close>

datatype event_type = Message | MessageEnd | OtherType

datatype stream_event =
    ToolResult "string option" "string option"
  | AssistantMessage event_type "string list"
  | OtherEvent
  | DebounceElapsed

definition onToolResult :: "stream_cfg \<Rightarrow> string option \<Rightarrow> string option \<Rightarrow> stream_state \<Rightarrow> stream_state" where
  "onToolResult cfg toolName meta st =
     (let st1 = (if truthy (pendingToolName st) \<and> truthy toolName \<and> toolName \<noteq> pendingToolName st
                 then flushPendingTool cfg st else st);
          st2 = (if \<not> truthy (pendingToolName st1) then st1\<lparr>pendingToolName := toolName\<rparr> else st1);
          st3 = (if truthy meta then st2\<lparr>pendingMetas := pendingMetas st2 @ [the meta]\<rparr> else st2)
      in if toolResultFlushCount cfg > 0 \<and> int (length (pendingMetas st3)) \<ge> toolResultFlushCount cfg
         then flushPendingTool cfg st3
         else st3\<lparr>pendingTimer := True\<rparr>)"

fun onEvent :: "stream_cfg \<Rightarrow> stream_event \<Rightarrow> stream_state \<Rightarrow> stream_state" where
  "onEvent cfg (ToolResult toolName meta) st = onToolResult cfg toolName meta st"
| "onEvent cfg (AssistantMessage Message blocks) st =
     streamAssistantFinal cfg blocks (streamAssistantFinal cfg blocks st)"
| "onEvent cfg (AssistantMessage MessageEnd blocks) st =
     streamAssistantFinal cfg blocks
       (streamAssistantFinal cfg blocks (streamAssistantFinal cfg blocks st))"
| "onEvent cfg (AssistantMessage OtherType blocks) st = streamAssistantFinal cfg blocks st"
| "onEvent cfg OtherEvent st = st"
| "onEvent cfg DebounceElapsed st = (if pendingTimer st then flushPendingTool cfg st else st)"

text \<open>The events of a run in order, then the \<open>flushPendingTool()\<close> that follows the
  runner's return.\<close>

fun onEvents :: "stream_cfg \<Rightarrow> stream_event list \<Rightarrow> stream_state \<Rightarrow> stream_state" where
  "onEvents cfg [] st = st"
| "onEvents cfg (ev # evs) st = onEvents cfg evs (onEvent cfg ev st)"

definition runStream :: "stream_cfg \<Rightarrow> stream_event list \<Rightarrow> stream_state" where
  "runStream cfg evs = flushPendingTool cfg (onEvents cfg evs initialStream)"

text \<open>The payload of one aggregate flush.\<close>

definition aggregatePayload :: "stream_cfg \<Rightarrow> string \<Rightarrow> string list \<Rightarrow> reply_payload" where
  "aggregatePayload cfg toolName metas =
     partialPayload cfg (formatToolAggregate cfg (Some toolName) metas)"

text \<open>A configuration to run examples with: a threshold of five, and an aggregate shown as
  the tool name followed by its metas.\<close>

definition plainCfg :: stream_cfg where
  "plainCfg =
     \<lparr>hasOnPartialReply = True,
      toolResultFlushCount = 5,
      formatToolAggregate = (\<lambda>toolName metas.
         (case toolName of None \<Rightarrow> ''tool'' | Some n \<Rightarrow> n) @ '': '' @ joinWith '', '' metas),
      fenceSpansOf = noFences\<rparr>"

text \<open>The same configuration with a threshold of one.\<close>

definition eagerCfg :: stream_cfg where
  "eagerCfg = plainCfg\<lparr>toolResultFlushCount := 1\<rparr>"

section \<open>Command reply: prompt echo detection\<close>

text \<open>
  \<open>stripStructuralPrefixes\<close> is four replacements in a row. The first removes every
  bracketed tag: \<open>[\<close>, one or more characters other than \<open>]\<close>, \<open>]\<close>, and the white space
  after it.
\<close>

function stripBracketTags :: "string \<Rightarrow> string" where
  "stripBracketTags [] = []"
| "stripBracketTags (c # cs) =
     (if c = CHR ''['' \<and> takeWhile (\<lambda>x. x \<noteq> CHR '']'') cs \<noteq> []
         \<and> dropWhile (\<lambda>x. x \<noteq> CHR '']'') cs \<noteq> []
      then stripBracketTags (dropWhile isSpace (tl (dropWhile (\<lambda>x. x \<noteq> CHR '']'') cs)))
      else c # stripBracketTags cs)"
  by pat_completeness auto
termination
proof (relation "measure length")
  fix c :: char and cs :: string
  have "length (dropWhile isSpace (tl (dropWhile (\<lambda>x. x \<noteq> CHR '']'') cs)))
          \<le> length (tl (dropWhile (\<lambda>x. x \<noteq> CHR '']'') cs))"
    by (rule length_dropWhile_le)
  also have "\<dots> \<le> length (dropWhile (\<lambda>x. x \<noteq> CHR '']'') cs)"
    by simp
  also have "\<dots> \<le> length cs"
    by (rule length_dropWhile_le)
  finally show "(dropWhile isSpace (tl (dropWhile (\<lambda>x. x \<noteq> CHR '']'') cs)), c # cs)
                  \<in> measure length"
    by simp
qed simp_all

text \<open>
  The second removes, at the start of every line (the \<open>m\<close> flag: at the start of the text
  and after a line feed or carriage return), a label: blanks, then one or more
  characters of \<open>[A-Za-z0-9+()\-_. ]\<close>, then a colon and the white space after it. The
  label is the text up to the first colon; it matches when it splits into blanks
  followed by at least one character of the class, that is, when something follows its
  last tab and only blanks come before it.
\<close>

definition isLabelChar :: "char \<Rightarrow> bool" where
  "isLabelChar c =
     (c \<in> set ''ABCDEFGHIJKLMNOPQRSTUVWXYZabcdefghijklmnopqrstuvwxyz0123456789+()-_. '')"

definition isLabelOrTab :: "char \<Rightarrow> bool" where
  "isLabelOrTab c = (isLabelChar c \<or> c = CHR 0x09)"

definition isLineTerminator :: "char \<Rightarrow> bool" where
  "isLineTerminator c = (c = CHR 0x0A \<or> c = CHR 0x0D)"

definition labelPrefixOk :: "string \<Rightarrow> bool" where
  "labelPrefixOk w =
     (let v = rev (takeWhile (\<lambda>c. c \<noteq> CHR 0x09) (rev w));
          u = take (length w - length v) w
      in v \<noteq> [] \<and> list_all isBlank u)"

function stripLabelPrefixes :: "bool \<Rightarrow> string \<Rightarrow> string" where
  "stripLabelPrefixes atLineStart [] = []"
| "stripLabelPrefixes atLineStart (c # cs) =
     (if atLineStart \<and> dropWhile isLabelOrTab (c # cs) \<noteq> []
         \<and> hd (dropWhile isLabelOrTab (c # cs)) = CHR '':''
         \<and> labelPrefixOk (takeWhile isLabelOrTab (c # cs))
      then stripLabelPrefixes
             (takeWhile isSpace (tl (dropWhile isLabelOrTab (c # cs))) \<noteq> []
              \<and> isLineTerminator (last (takeWhile isSpace (tl (dropWhile isLabelOrTab (c # cs))))))
             (dropWhile isSpace (tl (dropWhile isLabelOrTab (c # cs))))
      else c # stripLabelPrefixes (isLineTerminator c) cs)"
  by pat_completeness auto
termination
proof (relation "measure (\<lambda>(b, s). length s)")
  fix atLineStart :: bool and c :: char and cs :: string
  assume "atLineStart \<and> dropWhile isLabelOrTab (c # cs) \<noteq> []
         \<and> hd (dropWhile isLabelOrTab (c # cs)) = CHR '':''
         \<and> labelPrefixOk (takeWhile isLabelOrTab (c # cs))"
  then have ne: "dropWhile isLabelOrTab (c # cs) \<noteq> []"
    by simp
  have "length (dropWhile isSpace (tl (dropWhile isLabelOrTab (c # cs))))
          \<le> length (tl (dropWhile isLabelOrTab (c # cs)))"
    by (rule length_dropWhile_le)
  also have "\<dots> < length (dropWhile isLabelOrTab (c # cs))"
    using ne by (cases "dropWhile isLabelOrTab (c # cs)") simp_all
  also have "\<dots> \<le> length (c # cs)"
    by (rule length_dropWhile_le)
  finally show "((takeWhile isSpace (tl (dropWhile isLabelOrTab (c # cs))) \<noteq> []
              \<and> isLineTerminator (last (takeWhile isSpace (tl (dropWhile isLabelOrTab (c # cs))))),
             dropWhile isSpace (tl (dropWhile isLabelOrTab (c # cs)))), atLineStart, c # cs)
           \<in> measure (\<lambda>(b, s). length s)"
    by simp
qed simp_all

text \<open>The third turns every run of white space into one space; the fourth trims.\<close>

fun collapseWs :: "string \<Rightarrow> string" where
  "collapseWs [] = []"
| "collapseWs [c] = (if isSpace c then '' '' else [c])"
| "collapseWs (c # d # cs) =
     (if isSpace c then (if isSpace d then collapseWs (d # cs) else CHR '' '' # collapseWs (d # cs))
      else c # collapseWs (d # cs))"

definition stripStructuralPrefixes :: "string \<Rightarrow> string" where
  "stripStructuralPrefixes text =
     trim (collapseWs (stripLabelPrefixes True (stripBracketTags text)))"

text \<open>\<open>normalize\<close> of \<open>runCommandReply\<close>.\<close>

definition normalizeEcho :: "string option \<Rightarrow> string" where
  "normalizeEcho s = toLowerCase (stripStructuralPrefixes (trim (orEmpty s)))"

section \<open>Command reply: from the runner's result to the payloads\<close>

text \<open>
  The part of \<open>runCommandReply\<close> after \<open>await enqueue(run, ...)\<close>, with its \<open>catch\<close>
  branch. What the runner resolved with, and what a rejection carried:
\<close>

record run_result =
  stdout :: string
  stderr :: string
  exitCode :: "int option"
  signal :: "string option"
  killed :: bool

record run_error =
  errKilled :: "bool option"
  errSignal :: "string option"
  errStdout :: "string option"
  errMessage :: string

text \<open>What \<open>agent.parseOutput\<close> returned: the texts, the tool results (a plain string is a
  result with that text), and \<open>meta.extra.summary\<close>.\<close>

record agent_tool_result =
  trText :: "string option"
  trToolName :: "string option"
  trMeta :: "string option"

record parsed_output =
  texts :: "string list option"
  toolResults :: "agent_tool_result list option"
  summary :: "string option"

text \<open>
  Functions of the reply path that are parameters here. \<open>extractRpcAssistantText\<close>,
  \<open>extractAssistantTextLoosely\<close> and \<open>stripRpcNoise\<close> are functions of the same file
  that read the output through \<open>JSON.parse\<close> and a regular expression;
  \<open>parseOutput\<close> is the agent's (\<open>../agents/pi.js\<close>), \<open>shortenMeta\<close> and the text of an
  aggregated tool line (\<open>formatToolAggregate\<close> with its emoji and preview) come from
  \<open>./tool-meta.js\<close>; \<open>fileSizeOf\<close> is the size \<open>fs.stat\<close> reports for a media path, \<open>None\<close>
  when it throws.
\<close>

record reply_env =
  extractRpcAssistantText :: "string \<Rightarrow> string option"
  extractAssistantTextLoosely :: "string \<Rightarrow> string option"
  stripRpcNoise :: "string \<Rightarrow> string"
  parseOutput :: "string \<Rightarrow> parsed_output"
  shortenMeta :: "string \<Rightarrow> string"
  decorateAggregate :: "string option \<Rightarrow> string list \<Rightarrow> string list \<Rightarrow> string"
  replyFenceSpans :: "string \<Rightarrow> (nat \<times> nat) list"
  fileSizeOf :: "string \<Rightarrow> nat option"

text \<open>The parameters of the call that this part reads: \<open>templatingCtx.Body\<close> and
  \<open>BodyStripped\<close>, \<open>verboseLevel === "on"\<close>, whether \<open>onPartialReply\<close> was supplied,
  \<open>reply.mediaUrl\<close>, \<open>reply.mediaMaxMb\<close>, \<open>timeoutSeconds\<close> and the resolved \<open>cwd\<close>.\<close>

record reply_params =
  body :: "string option"
  bodyStripped :: "string option"
  verboseOn :: bool
  onPartialReplyGiven :: bool
  replyMediaUrl :: "string option"
  mediaMaxMb :: nat
  timeoutSeconds :: nat
  resolvedCwd :: "string option"

record tool_result =
  ntText :: string
  ntToolName :: "string option"
  ntMeta :: "string option"

definition normalizeToolResults :: "reply_env \<Rightarrow> agent_tool_result list option \<Rightarrow> tool_result list" where
  "normalizeToolResults env results =
     (case results of
        None \<Rightarrow> []
      | Some trs \<Rightarrow>
          filter (\<lambda>tr. length (ntText tr) > 0)
            (map (\<lambda>tr. \<lparr>ntText = trim (orEmpty (trText tr)),
                          ntToolName = trimmedOrNone (trToolName tr),
                          ntMeta = (if truthy (trMeta tr) then Some (shortenMeta env (the (trMeta tr)))
                                    else None)\<rparr>) trs))"

definition parsedTextsOf :: "parsed_output option \<Rightarrow> string list" where
  "parsedTextsOf parsed =
     (case parsed of
        None \<Rightarrow> []
      | Some p \<Rightarrow> (case texts p of
                     None \<Rightarrow> []
                   | Some ts \<Rightarrow> filter (\<lambda>t. t \<noteq> []) (map trim ts)))"

definition parsedToolResultsOf :: "reply_env \<Rightarrow> parsed_output option \<Rightarrow> tool_result list" where
  "parsedToolResultsOf env parsed =
     normalizeToolResults env (case parsed of None \<Rightarrow> None | Some p \<Rightarrow> toolResults p)"

record tool_aggregate =
  agToolName :: "string option"
  agMetas :: "string list"
  agPreviews :: "string list"

text \<open>The \<open>reduce\<close> that groups consecutive results of one tool; the second argument is the
  accumulator.\<close>

fun aggregateToolResults :: "tool_result list \<Rightarrow> tool_aggregate list \<Rightarrow> tool_aggregate list" where
  "aggregateToolResults [] acc = acc"
| "aggregateToolResults (tr # trs) acc =
     (if acc \<noteq> [] \<and> agToolName (last acc) = ntToolName tr
      then aggregateToolResults trs
             (butlast acc @
              [(last acc)\<lparr>agMetas := agMetas (last acc)
                                       @ (if truthy (ntMeta tr) then [the (ntMeta tr)] else []),
                          agPreviews := agPreviews (last acc)
                                       @ (if ntText tr \<noteq> [] then [ntText tr] else [])\<rparr>])
      else aggregateToolResults trs
             (acc @ [\<lparr>agToolName = ntToolName tr,
                      agMetas = (if truthy (ntMeta tr) then [the (ntMeta tr)] else []),
                      agPreviews = (if ntText tr \<noteq> [] then [ntText tr] else [])\<rparr>]))"

record reply_item =
  itemText :: string
  itemMedia :: "string list option"

definition itemOf :: "reply_env \<Rightarrow> string \<Rightarrow> reply_item" where
  "itemOf env t =
     (let r = splitMediaFromOutput (replyFenceSpans env) t
      in \<lparr>itemText = sText r,
          itemMedia = (case sMediaUrls r of
                         Some mediaFound \<Rightarrow> (if length mediaFound > 0 then Some mediaFound else None)
                       | None \<Rightarrow> None)\<rparr>)"

text \<open>What the run left for this part to read: the output as used.\<close>

definition rpcAssistantTextOf :: "reply_env \<Rightarrow> run_result \<Rightarrow> string option" where
  "rpcAssistantTextOf env rr = extractRpcAssistantText env (stdout rr)"

definition trimmedOf :: "reply_env \<Rightarrow> run_result \<Rightarrow> string" where
  "trimmedOf env rr = stripRpcNoise env (trim (stdout rr))"

definition parsedOf :: "reply_env \<Rightarrow> run_result \<Rightarrow> parsed_output option" where
  "parsedOf env rr =
     (if trimmedOf env rr \<noteq> [] then Some (parseOutput env (trimmedOf env rr)) else None)"

definition fallbackTextOf :: "reply_env \<Rightarrow> run_result \<Rightarrow> string" where
  "fallbackTextOf env rr =
     (case rpcAssistantTextOf env rr of
        Some t \<Rightarrow> t
      | None \<Rightarrow>
          (case extractRpcAssistantText env (trimmedOf env rr) of
             Some t \<Rightarrow> t
           | None \<Rightarrow>
               (case extractAssistantTextLoosely env (trimmedOf env rr) of
                  Some t \<Rightarrow> t
                | None \<Rightarrow> trimmedOf env rr)))"

definition promptEcho :: "reply_params \<Rightarrow> string \<Rightarrow> bool" where
  "promptEcho params fallbackText =
     (let bodyNorm = normalizeEcho (orElse (body params) (bodyStripped params));
          fallbackNorm = normalizeEcho (Some fallbackText)
      in fallbackText \<noteq> [] \<and>
         (fallbackText = orEmpty (body params) \<or>
          fallbackText = orEmpty (bodyStripped params) \<or>
          (length bodyNorm > 0 \<and> bodyNorm = fallbackNorm)))"

definition noOutputNotice :: "string option \<Rightarrow> string" where
  "noOutputNotice meta =
     ''(command produced no output'' @ (if truthy meta then ''; '' @ the meta else []) @ '')''"

definition replyItemsOf :: "reply_env \<Rightarrow> reply_params \<Rightarrow> run_result \<Rightarrow> reply_item list" where
  "replyItemsOf env params rr =
     (let parsed = parsedOf env rr;
          parsedTexts = parsedTextsOf parsed;
          parsedToolResults = parsedToolResultsOf env parsed;
          hasParsedContent = (length parsedTexts > 0 \<or> length parsedToolResults > 0);
          includeToolResultsInline =
            (verboseOn params \<and> \<not> onPartialReplyGiven params \<and> length parsedToolResults > 0);
          items0 =
            (if includeToolResultsInline
             then map (\<lambda>tr. itemOf env (decorateAggregate env (agToolName tr) (agMetas tr) (agPreviews tr)))
                    (aggregateToolResults parsedToolResults [])
             else [])
            @ map (itemOf env) parsedTexts;
          fallbackText = fallbackTextOf env rr;
          safeFallbackText = (if promptEcho params fallbackText then None else Some fallbackText);
          items1 =
            (if length items0 = 0 \<and> truthy safeFallbackText \<and> \<not> hasParsedContent
             then (let item = itemOf env (the safeFallbackText)
                   in if itemText item \<noteq> [] \<or> itemMedia item \<noteq> None then items0 @ [item]
                      else items0)
             else items0)
      in if length items1 = 0
         then [\<lparr>itemText = noOutputNotice (case parsed of None \<Rightarrow> None | Some p \<Rightarrow> summary p),
                itemMedia = None\<rparr>]
         else items1)"

text \<open>Decimal digits of an exit code, as a template literal prints a number.\<close>

function showNat :: "nat \<Rightarrow> string" where
  "showNat n = (if n < 10 then [''0123456789'' ! n] else showNat (n div 10) @ [''0123456789'' ! (n mod 10)])"
  by pat_completeness auto
termination
  by (relation "measure id") auto

definition showInt :: "int \<Rightarrow> string" where
  "showInt i = (if i < 0 then CHR ''-'' # showNat (nat (- i)) else showNat (nat i))"

definition codeText :: "int option \<Rightarrow> string" where
  "codeText c = (case c of None \<Rightarrow> ''unknown'' | Some i \<Rightarrow> showInt i)"

text \<open>The warning sign that starts the error texts (U+26A0 U+FE0F), as its UTF-8 bytes.\<close>

definition warningSign :: string where
  "warningSign = [CHR 0xE2, CHR 0x9A, CHR 0xA0, CHR 0xEF, CHR 0xB8, CHR 0x8F]"

definition textPayload :: "string \<Rightarrow> reply_payload" where
  "textPayload t = \<lparr>pText = Some t, pMediaUrl = None, pMediaUrls = None\<rparr>"

definition exitErrorText :: "reply_env \<Rightarrow> run_result \<Rightarrow> string" where
  "exitErrorText env rr =
     (let summarySource = (case rpcAssistantTextOf env rr of Some t \<Rightarrow> t | None \<Rightarrow> trimmedOf env rr);
          partialOut =
            (if summarySource \<noteq> []
             then [nl, nl] @ ''Output: '' @ take 500 summarySource
                  @ (if length summarySource > 500 then ''...'' else [])
             else [])
      in warningSign @ '' Command exited with code '' @ codeText (exitCode rr)
         @ (if truthy (signal rr) then '' ('' @ the (signal rr) @ '')'' else [])
         @ partialOut)"

definition killedErrorText :: "run_result \<Rightarrow> string" where
  "killedErrorText rr =
     warningSign @ '' Command was killed before completion (exit code '' @ codeText (exitCode rr) @ '')''"

record command_reply_result =
  payloads :: "reply_payload list"
  metaExitCode :: "int option"
  metaSignal :: "string option"
  metaKilled :: "bool option"

text \<open>The media of one reply item after the size cap, and its payload.\<close>

definition isHttpUrl :: "string \<Rightarrow> bool" where
  "isHttpUrl url = (startsWithCI ''http://'' url \<or> startsWithCI ''https://'' url)"

definition capMedia :: "reply_env \<Rightarrow> reply_params \<Rightarrow> string list option \<Rightarrow> string list option" where
  "capMedia env params mediaUrls =
     (case mediaUrls of
        None \<Rightarrow> None
      | Some urls \<Rightarrow>
          (if length urls > 0 \<and> mediaMaxMb params \<noteq> 0
           then Some (filter (\<lambda>url. isHttpUrl url \<or>
                                (case fileSizeOf env url of
                                   None \<Rightarrow> True
                                 | Some bytes \<Rightarrow> bytes \<le> mediaMaxMb params * 1024 * 1024)) urls)
           else Some urls))"

definition payloadOfItem :: "reply_env \<Rightarrow> reply_params \<Rightarrow> reply_item \<Rightarrow> reply_payload option" where
  "payloadOfItem env params item =
     (let mediaUrls =
            capMedia env params
              (orElse (itemMedia item)
                 (if truthy (replyMediaUrl params) then Some [the (replyMediaUrl params)] else None))
      in if itemText item \<noteq> [] \<or> (case mediaUrls of None \<Rightarrow> False | Some urls \<Rightarrow> length urls > 0)
         then Some \<lparr>pText = (if itemText item \<noteq> [] then Some (itemText item) else None),
                    pMediaUrl = (case mediaUrls of
                                   None \<Rightarrow> None
                                 | Some urls \<Rightarrow> (case urls of [] \<Rightarrow> None | u # us \<Rightarrow> Some u)),
                    pMediaUrls = mediaUrls\<rparr>
         else None)"

text \<open>The body of the \<open>try\<close> block after the run returned; \<open>didStream\<close> is \<open>streamedAny\<close>
  as the callbacks left it.\<close>

definition afterRun :: "reply_env \<Rightarrow> reply_params \<Rightarrow> bool \<Rightarrow> run_result \<Rightarrow> command_reply_result" where
  "afterRun env params didStream rr =
     (let replyItems = replyItemsOf env params rr
      in if (case exitCode rr of None \<Rightarrow> 0 | Some c \<Rightarrow> c) \<noteq> 0
         then \<lparr>payloads = [textPayload (exitErrorText env rr)],
                metaExitCode = exitCode rr, metaSignal = signal rr, metaKilled = Some (killed rr)\<rparr>
         else if killed rr \<and> \<not> truthy (signal rr)
         then \<lparr>payloads = [textPayload (killedErrorText rr)],
                metaExitCode = exitCode rr, metaSignal = signal rr, metaKilled = Some (killed rr)\<rparr>
         else \<lparr>payloads = (if didStream \<and> onPartialReplyGiven params then []
                            else List.map_filter (payloadOfItem env params) replyItems),
                metaExitCode = exitCode rr, metaSignal = signal rr, metaKilled = Some (killed rr)\<rparr>)"

text \<open>The \<open>catch\<close> block.\<close>

definition orIfEmpty :: "string \<Rightarrow> string \<Rightarrow> string" where
  "orIfEmpty a b = (if a \<noteq> [] then a else b)"

definition afterThrow :: "reply_env \<Rightarrow> reply_params \<Rightarrow> run_error \<Rightarrow> command_reply_result" where
  "afterThrow env params err =
     (let timeoutHit = (errKilled err = Some True \<or> errSignal err = Some ''SIGKILL'')
      in if timeoutHit
         then
           (let baseMsg = ''Command timed out after '' @ showNat (timeoutSeconds params) @ ''s''
                          @ (if truthy (resolvedCwd params)
                             then '' (cwd: '' @ the (resolvedCwd params) @ '')'' else [])
                          @ ''. Try a shorter prompt or split the request.'';
                out = orEmpty (errStdout err);
                partial = orIfEmpty (orEmpty (extractRpcAssistantText env out))
                            (orIfEmpty (orEmpty (extractAssistantTextLoosely env out))
                               (stripRpcNoise env out));
                partialSnippet = (if length partial > 800 then take 800 partial @ ''...'' else partial);
                t = (if partialSnippet \<noteq> []
                     then baseMsg @ [nl, nl] @ ''Partial output before timeout:'' @ [nl] @ partialSnippet
                     else baseMsg)
            in \<lparr>payloads = [textPayload t], metaExitCode = None, metaSignal = errSignal err,
                 metaKilled = errKilled err\<rparr>)
         else \<lparr>payloads = [textPayload (warningSign @ '' Command failed: '' @ errMessage err)],
                metaExitCode = None, metaSignal = errSignal err, metaKilled = errKilled err\<rparr>)"

text \<open>The outcome of \<open>await enqueue(run, ...)\<close> is a rejection or a result; either way a
  reply result is returned.\<close>

definition finishReply ::
  "reply_env \<Rightarrow> reply_params \<Rightarrow> bool \<Rightarrow> run_error + run_result \<Rightarrow> command_reply_result" where
  "finishReply env params didStream outcome =
     (case outcome of
        Inl err \<Rightarrow> afterThrow env params err
      | Inr rr \<Rightarrow> afterRun env params didStream rr)"

text \<open>Examples: extractors that find nothing, so that the fallback is the raw output.\<close>

definition rawEnv :: reply_env where
  "rawEnv =
     \<lparr>extractRpcAssistantText = (\<lambda>s. None),
      extractAssistantTextLoosely = (\<lambda>s. None),
      stripRpcNoise = (\<lambda>s. s),
      parseOutput = (\<lambda>s. \<lparr>texts = None, toolResults = None, summary = None\<rparr>),
      shortenMeta = (\<lambda>s. s),
      decorateAggregate = (\<lambda>toolName metas previews. joinWith '' '' (metas @ previews)),
      replyFenceSpans = noFences,
      fileSizeOf = (\<lambda>url. None)\<rparr>"

definition paramsFor :: "string \<Rightarrow> reply_params" where
  "paramsFor b =
     \<lparr>body = Some b, bodyStripped = None, verboseOn = False, onPartialReplyGiven = False,
      replyMediaUrl = None, mediaMaxMb = 0, timeoutSeconds = 30, resolvedCwd = None\<rparr>"

definition printed :: "string \<Rightarrow> int option \<Rightarrow> run_result" where
  "printed out c = \<lparr>stdout = out, stderr = [], exitCode = c, signal = None, killed = False\<rparr>"

text \<open>The captured output an exit error summarises: the assistant text found in the
  output or, without one, the output without protocol noise.\<close>

definition summarySourceOf :: "reply_env \<Rightarrow> run_result \<Rightarrow> string" where
  "summarySourceOf env rr =
     (case rpcAssistantTextOf env rr of Some t \<Rightarrow> t | None \<Rightarrow> trimmedOf env rr)"







section \<open>Abort handling: \<open>src/auto-reply/reply/abort.ts\<close>\<close>

text \<open>\<open>SessionEntry\<close> is declared in \<open>config/sessions.js\<close>, which is not part of the
  sources; these are the fields the abort path reads and writes.\<close>

record session_entry =
  sessionId :: "string option"
  abortedLastRun :: bool
  updatedAt :: int

type_synonym session_store = "string \<rightharpoonup> session_entry"

definition ABORT_TRIGGERS :: "string list" where
  "ABORT_TRIGGERS = [''stop'', ''esc'', ''abort'', ''wait'', ''exit'']"

definition isAbortTrigger :: "string option \<Rightarrow> bool" where
  "isAbortTrigger text =
     (if \<not> truthy text then False
      else toLowerCase (trim (the text)) \<in> set ABORT_TRIGGERS)"

text \<open>
  \<open>resolveSessionEntryForKey\<close>. \<open>parseAgentSessionKey\<close> (\<open>routing/session-key.js\<close>) is not
  part of the sources; \<open>legacyRest\<close> stands for \<open>parseAgentSessionKey(key)?.rest\<close>.
\<close>

definition resolveSessionEntryForKey ::
  "(string \<Rightarrow> string option) \<Rightarrow> session_store option \<Rightarrow> string option
   \<Rightarrow> (session_entry \<times> string) option" where
  "resolveSessionEntryForKey legacyRest store sessionKey =
     (if store = None \<or> \<not> truthy sessionKey then None
      else (case (the store) (the sessionKey) of
              Some direct \<Rightarrow> Some (direct, the sessionKey)
            | None \<Rightarrow>
                (let legacyKey = legacyRest (the sessionKey)
                 in if truthy legacyKey
                    then (case (the store) (the legacyKey) of
                            Some entry \<Rightarrow> Some (entry, the legacyKey)
                          | None \<Rightarrow> None)
                    else None)))"

text \<open>
  The message context and what the collaborators that are not part of the sources
  returned for it: \<open>shouldHandleTextCommands\<close>, \<open>resolveCommandAuthorization\<close> (whether the
  sender is authorised, \<open>from\<close>, \<open>to\<close>), the body after \<open>stripStructuralPrefixes\<close> and
  \<open>stripMentions\<close>, and after \<open>normalizeCommandBody\<close>.
\<close>

record abort_request =
  allowTextCommands :: bool
  isAuthorizedSender :: bool
  authFrom :: "string option"
  authTo :: "string option"
  commandTargetSessionKey :: "string option"
  sessionKey :: "string option"
  strippedBody :: string
  normalizedBody :: string

text \<open>
  What the abort path reads and writes: the session store file (\<open>storeSaves\<close> counts the
  calls of \<open>saveSessionStore\<close>), the map \<open>ABORT_MEMORY\<close>, and the session ids
  \<open>abortEmbeddedPiRun\<close> was called with. \<open>abortEmbeddedPiRun\<close> (\<open>agents/pi-embedded.js\<close>) is
  not part of the sources: \<open>runAborted\<close> is what it returns for a session id, true when it
  signalled a live run.
\<close>

record abort_world =
  sessionStore :: session_store
  storeSaves :: nat
  abortMemory :: "string \<rightharpoonup> bool"
  abortCalls :: "string list"

record abort_env =
  legacyRestOf :: "string \<Rightarrow> string option"
  runAborted :: "string \<Rightarrow> bool"
  dateNow :: int

definition resolveAbortTargetKey :: "abort_request \<Rightarrow> string option" where
  "resolveAbortTargetKey ctx =
     (case trimmedOrNone (commandTargetSessionKey ctx) of
        Some target \<Rightarrow> Some target
      | None \<Rightarrow> trimmedOrNone (sessionKey ctx))"

definition setAbortMemory :: "string \<Rightarrow> bool \<Rightarrow> abort_world \<Rightarrow> abort_world" where
  "setAbortMemory key v w = w\<lparr>abortMemory := (abortMemory w)(key \<mapsto> v)\<rparr>"

record abort_result =
  handled :: bool
  aborted :: bool

definition tryFastAbortFromMessage ::
  "abort_env \<Rightarrow> abort_request \<Rightarrow> abort_world \<Rightarrow> abort_result \<times> abort_world" where
  "tryFastAbortFromMessage env ctx w =
     (if \<not> allowTextCommands ctx then (\<lparr>handled = False, aborted = False\<rparr>, w)
      else if \<not> isAuthorizedSender ctx then (\<lparr>handled = False, aborted = False\<rparr>, w)
      else
        (let targetKey = resolveAbortTargetKey ctx;
             abortRequested = (normalizedBody ctx = ''/stop'' \<or> isAbortTrigger (Some (strippedBody ctx)))
         in if \<not> abortRequested then (\<lparr>handled = False, aborted = False\<rparr>, w)
            else
              (let abortKey = firstDefined targetKey (authFrom ctx) (authTo ctx)
               in if truthy targetKey
                  then
                    (let store = sessionStore w;
                         found = resolveSessionEntryForKey (legacyRestOf env) (Some store) targetKey;
                         sid = (case found of Some (entry, key) \<Rightarrow> sessionId entry | None \<Rightarrow> None);
                         wasAborted = (if truthy sid then runAborted env (the sid) else False);
                         w1 = (if truthy sid then w\<lparr>abortCalls := abortCalls w @ [the sid]\<rparr> else w)
                     in (case found of
                           Some (entry, key) \<Rightarrow>
                             (\<lparr>handled = True, aborted = wasAborted\<rparr>,
                              w1\<lparr>sessionStore :=
                                    store(key \<mapsto> entry\<lparr>abortedLastRun := True,
                                                         updatedAt := dateNow env\<rparr>),
                                  storeSaves := storeSaves w1 + 1\<rparr>)
                         | None \<Rightarrow>
                             (\<lparr>handled = True, aborted = wasAborted\<rparr>,
                              if truthy abortKey then setAbortMemory (the abortKey) True w1 else w1)))
                  else
                    (\<lparr>handled = True, aborted = False\<rparr>,
                     if truthy abortKey then setAbortMemory (the abortKey) True w else w))))"

text \<open>An abort request that passes the gates: text commands are handled, the sender is
  authorised, and the body is an abort trigger.\<close>

definition isAbortRequest :: "abort_request \<Rightarrow> bool" where
  "isAbortRequest ctx =
     (allowTextCommands ctx \<and> isAuthorizedSender ctx \<and>
      (normalizedBody ctx = ''/stop'' \<or> isAbortTrigger (Some (strippedBody ctx))))"

text \<open>Examples: a session key of the form \<open>agent:main:rest\<close>, read as such.\<close>

definition stopRequest :: "string \<Rightarrow> abort_request" where
  "stopRequest key =
     \<lparr>allowTextCommands = True, isAuthorizedSender = True, authFrom = Some ''+100'',
      authTo = None, commandTargetSessionKey = None, sessionKey = Some key,
      strippedBody = ''stop'', normalizedBody = ''stop''\<rparr>"

definition plainAbortEnv :: abort_env where
  "plainAbortEnv =
     \<lparr>legacyRestOf = (\<lambda>k. if startsWith ''agent:main:'' k then Some (drop 11 k) else None),
      runAborted = (\<lambda>sid. sid = ''live''),
      dateNow = 2000\<rparr>"

definition oneSession :: abort_world where
  "oneSession =
     \<lparr>sessionStore = [''main'' \<mapsto> \<lparr>sessionId = Some ''idle'', abortedLastRun = False, updatedAt = 1\<rparr>],
      storeSaves = 0, abortMemory = Map.empty, abortCalls = []\<rparr>"

section \<open>Cron store: \<open>src/cron/service/store.ts\<close>\<close>

text \<open>
  A raw job record is a \<open>Record<string, unknown>\<close>: an object of JSON values, kept as an
  association list in insertion order. A property that is missing and a property that
  holds \<open>undefined\<close> read the same and serialise the same, so assigning \<open>undefined\<close> is
  modelled as removing the key.
\<close>

datatype json =
    JNull
  | JBool bool
  | JNum int
  | JStr string
  | JArr "json list"
  | JObj "(string \<times> json) list"

type_synonym raw_job = "(string \<times> json) list"

record cron_store =
  version :: nat
  jobs :: "raw_job list"

text \<open>
  The part of \<open>CronServiceState\<close> that \<open>store.ts\<close> reads and writes. The modification
  time is a JavaScript number that is only ever compared, so it is a \<^typ>\<open>real\<close>.
\<close>

record cron_state =
  store :: "cron_store option"
  storeLoadedAtMs :: "int option"
  storeFileMtimeMs :: "real option"

text \<open>
  The file at \<open>state.deps.storePath\<close>: the jobs a load would return (\<open>None\<close> when
  \<open>loaded.jobs\<close> is undefined), the modification time \<open>stat\<close> reports (\<open>None\<close> when
  \<open>stat\<close> throws), and the log of file operations performed so far.
\<close>

datatype io_event = Stat | LoadStore | SaveStore

record cron_disk =
  fileJobs :: "raw_job list option"
  fileMtimeMs :: "real option"
  ioLog :: "io_event list"

text \<open>
  The collaborators \<open>store.ts\<close> imports from modules that are not part of the sources
  (\<open>./normalize.js\<close>, \<open>../payload-migration.js\<close>, \<open>./jobs.js\<close>), the clock
  \<open>state.deps.nowMs\<close>, and the time stamp the file system gives a file that is written.
  \<open>migrateLegacyCronPayload\<close> mutates the payload object and returns whether it did;
  here it returns both.
\<close>

record cron_env =
  inferLegacyName :: "json option \<Rightarrow> json option \<Rightarrow> string"
  normalizeOptionalText :: "json option \<Rightarrow> string option"
  migrateLegacyCronPayload :: "(string \<times> json) list \<Rightarrow> (string \<times> json) list \<times> bool"
  recomputeNextRuns :: "int \<Rightarrow> raw_job list \<Rightarrow> raw_job list"
  nowMs :: int
  writeMtimeMs :: real

definition logIO :: "io_event \<Rightarrow> cron_disk \<Rightarrow> cron_disk" where
  "logIO e d = d\<lparr>ioLog := ioLog d @ [e]\<rparr>"

definition getFileMtimeMs :: "cron_disk \<Rightarrow> real option \<times> cron_disk" where
  "getFileMtimeMs d = (fileMtimeMs d, logIO Stat d)"

text \<open>
  Modelled from the spec: \<open>loadCronStore\<close> and \<open>saveCronStore\<close> of \<open>../store.js\<close> are
  not part of the sources. The cron store file is \<open>{version: 1, jobs: [...]}\<close>; a load
  returns the jobs the file holds, and persist rewrites the whole store.
\<close>

definition loadCronStore :: "cron_disk \<Rightarrow> raw_job list option \<times> cron_disk" where
  "loadCronStore d = (fileJobs d, logIO LoadStore d)"

definition saveCronStore :: "cron_env \<Rightarrow> cron_store \<Rightarrow> cron_disk \<Rightarrow> cron_disk" where
  "saveCronStore env s d =
     logIO SaveStore (d\<lparr>fileJobs := Some (jobs s), fileMtimeMs := Some (writeMtimeMs env)\<rparr>)"

definition persist :: "cron_env \<Rightarrow> cron_state \<Rightarrow> cron_disk \<Rightarrow> cron_state \<times> cron_disk" where
  "persist env st d =
     (case store st of
        None \<Rightarrow> (st, d)
      | Some s \<Rightarrow>
          (let d1 = saveCronStore env s d;
               (m, d2) = getFileMtimeMs d1
           in (st\<lparr>storeFileMtimeMs := m\<rparr>, d2)))"

definition needsReload :: "cron_state \<Rightarrow> real option \<Rightarrow> bool" where
  "needsReload st fm =
     (store st = None \<or>
      (case (fm, storeFileMtimeMs st) of
         (Some m, Some c) \<Rightarrow> m > c
       | _ \<Rightarrow> False))"

text \<open>The body of the loop over the raw job records: the record as left in memory, and
  whether \<open>mutated\<close> was set.\<close>

definition normalizeName :: "cron_env \<Rightarrow> raw_job \<Rightarrow> raw_job \<times> bool" where
  "normalizeName env raw =
     (case map_of raw ''name'' of
        Some (JStr nameRaw) \<Rightarrow>
          (if length (trim nameRaw) = 0
           then (AList.update ''name''
                   (JStr (inferLegacyName env (map_of raw ''schedule'') (map_of raw ''payload''))) raw,
                 True)
           else (AList.update ''name'' (JStr (trim nameRaw)) raw, False))
      | _ \<Rightarrow>
          (AList.update ''name''
             (JStr (inferLegacyName env (map_of raw ''schedule'') (map_of raw ''payload''))) raw,
           True))"

definition sameDescription :: "json option \<Rightarrow> string option \<Rightarrow> bool" where
  "sameDescription rawDesc desc =
     (case (rawDesc, desc) of
        (None, None) \<Rightarrow> True
      | (Some (JStr s), Some t) \<Rightarrow> s = t
      | _ \<Rightarrow> False)"

definition normalizeDescription :: "cron_env \<Rightarrow> raw_job \<Rightarrow> raw_job \<times> bool" where
  "normalizeDescription env raw =
     (let desc = normalizeOptionalText env (map_of raw ''description'')
      in if \<not> sameDescription (map_of raw ''description'') desc
         then (case desc of
                 None \<Rightarrow> (AList.delete ''description'' raw, True)
               | Some t \<Rightarrow> (AList.update ''description'' (JStr t) raw, True))
         else (raw, False))"

definition normalizePayload :: "cron_env \<Rightarrow> raw_job \<Rightarrow> raw_job \<times> bool" where
  "normalizePayload env raw =
     (case map_of raw ''payload'' of
        Some (JObj payload) \<Rightarrow>
          (let (payload', changed) = migrateLegacyCronPayload env payload
           in (AList.update ''payload'' (JObj payload') raw, changed))
      | _ \<Rightarrow> (raw, False))"

definition normalizeJob :: "cron_env \<Rightarrow> raw_job \<Rightarrow> raw_job \<times> bool" where
  "normalizeJob env raw =
     (let (r1, m1) = normalizeName env raw;
          (r2, m2) = normalizeDescription env r1;
          (r3, m3) = normalizePayload env r2
      in (r3, m1 \<or> m2 \<or> m3))"

fun normalizeJobs :: "cron_env \<Rightarrow> raw_job list \<Rightarrow> bool \<Rightarrow> raw_job list \<times> bool" where
  "normalizeJobs env [] mutated = ([], mutated)"
| "normalizeJobs env (raw # rest) mutated =
     (let (raw', m) = normalizeJob env raw;
          (rest', mutated') = normalizeJobs env rest (mutated \<or> m)
      in (raw' # rest', mutated'))"

definition ensureLoaded :: "cron_env \<Rightarrow> cron_state \<Rightarrow> cron_disk \<Rightarrow> cron_state \<times> cron_disk" where
  "ensureLoaded env st d =
     (let (fm, d1) = getFileMtimeMs d
      in if \<not> needsReload st fm then (st, d1)
         else
           (let (loaded, d2) = loadCronStore d1;
                (js, mutated) = normalizeJobs env (case loaded of None \<Rightarrow> [] | Some l \<Rightarrow> l) False;
                st1 = st\<lparr>store := Some \<lparr>version = 1, jobs = js\<rparr>,
                         storeLoadedAtMs := Some (nowMs env),
                         storeFileMtimeMs := fm\<rparr>;
                st2 = st1\<lparr>store := Some \<lparr>version = 1,
                                              jobs = recomputeNextRuns env (nowMs env) js\<rparr>\<rparr>
            in if mutated then persist env st2 d2 else (st2, d2)))"

text \<open>The file operations a call added to the log.\<close>

definition newIO :: "cron_disk \<Rightarrow> cron_disk \<Rightarrow> io_event list" where
  "newIO d d' = drop (length (ioLog d)) (ioLog d')"

definition mtimeAdvanced :: "cron_state \<Rightarrow> cron_disk \<Rightarrow> bool" where
  "mtimeAdvanced st d =
     (case (fileMtimeMs d, storeFileMtimeMs st) of
        (Some m, Some c) \<Rightarrow> c < m
      | _ \<Rightarrow> False)"

text \<open>
  Modelled from the spec: an instance of the collaborators that are not part of the
  sources, to run \<open>ensureLoaded\<close> on concrete stores. A missing or blank description
  normalises to \<open>undefined\<close> and any other to its trimmed text; no payload is a legacy
  one; next-run times are left alone; every inferred name is \<open>Cron job\<close>.
\<close>

definition plainEnv :: cron_env where
  "plainEnv =
     \<lparr>inferLegacyName = (\<lambda>schedule payload. ''Cron job''),
      normalizeOptionalText =
        (\<lambda>v. case v of Some (JStr s) \<Rightarrow> (if trim s = [] then None else Some (trim s))
                        | _ \<Rightarrow> None),
      migrateLegacyCronPayload = (\<lambda>p. (p, False)),
      recomputeNextRuns = (\<lambda>now js. js),
      nowMs = 1000,
      writeMtimeMs = 50\<rparr>"

definition neverLoaded :: cron_state where
  "neverLoaded = \<lparr>store = None, storeLoadedAtMs = None, storeFileMtimeMs = None\<rparr>"

definition dailyJob :: raw_job where
  "dailyJob =
     [(''id'', JStr ''j1''), (''name'', JStr ''daily''),
      (''schedule'', JObj [(''kind'', JStr ''every''), (''everyMs'', JNum 60000)]),
      (''payload'', JObj [(''kind'', JStr ''systemEvent''), (''text'', JStr ''ping'')])]"

definition diskWith :: "raw_job list \<Rightarrow> real \<Rightarrow> cron_disk" where
  "diskWith js m = \<lparr>fileJobs = Some js, fileMtimeMs = Some m, ioLog = []\<rparr>"

text \<open>A job whose name was written with blanks around it.\<close>

definition paddedJob :: raw_job where
  "paddedJob =
     [(''id'', JStr ''j1''), (''name'', JStr '' daily ''),
      (''schedule'', JObj [(''kind'', JStr ''every''), (''everyMs'', JNum 60000)]),
      (''payload'', JObj [(''kind'', JStr ''systemEvent''), (''text'', JStr ''ping'')])]"

section \<open>Properties of the media parser\<close>







lemma collectParts_eq:
  "collectParts parts media hv bad =
     (media @ filter isValidMedia (map candidateOf parts),
      hv \<or> list_ex (\<lambda>p. isValidMedia (candidateOf p)) parts,
      bad @ filter (\<lambda>p. \<not> isValidMedia (candidateOf p)) parts)"
  by (induction parts arbitrary: media hv bad) (auto simp: candidateOf_def Let_def)

lemma processMatch_media:
  "fst (processMatch line start rest media) =
     media @ filter isValidMedia (map candidateOf (splitWs (mediaPayload rest)))"
  by (simp add: processMatch_def collectParts_eq Let_def)

lemma processLines_media:
  "fst (processLines spans lines off media found kept) =
     media @ filter isValidMedia (lineCandidates spans lines off)"
proof (induction lines arbitrary: off media found kept)
  case Nil
  then show ?case by simp
next
  case (Cons line rest)
  show ?case
  proof (cases "isInsideFence spans off")
    case True
    then show ?thesis by (simp add: Cons.IH)
  next
    case False
    show ?thesis
    proof (cases "findMediaToken None line 0")
      case None
      with False show ?thesis by (simp add: Cons.IH)
    next
      case (Some m)
      obtain start after where m: "m = (start, after)" by (cases m)
      obtain media' cleaned where pm: "processMatch line start after media = (media', cleaned)"
        by (cases "processMatch line start after media")
      have "media' = media @ filter isValidMedia (map candidateOf (splitWs (mediaPayload after)))"
        using processMatch_media [of line start after media] pm by simp
      with False Some m pm show ?thesis by (simp add: Cons.IH)
    qed
  qed
qed



lemma splitNl_not_Nil: "splitNl s \<noteq> []"
  by (induction s) (auto split: list.splits)

lemma joinWith_Cons_head: "joinWith sep ((c # l) # ls) = c # joinWith sep (l # ls)"
  by (cases ls) auto

lemma joinWith_splitNl: "joinWith [nl] (splitNl s) = s"
proof (induction s)
  case Nil
  then show ?case by simp
next
  case (Cons c cs)
  obtain l ls where sp: "splitNl cs = l # ls"
    using splitNl_not_Nil [of cs] by (cases "splitNl cs") auto
  show ?case
  proof (cases "c = nl")
    case True
    with Cons sp show ?thesis by simp
  next
    case False
    with Cons sp show ?thesis by (simp add: joinWith_Cons_head)
  qed
qed

text \<open>
  C10. In the result of \<open>splitMediaFromOutput\<close>, a \<open>mediaUrls\<close> field that is present is
  not empty (it lists the valid media candidates of the input) and \<open>mediaUrl\<close> is its
  first element; when the input has no valid media candidate, neither field is present.
\<close>

theorem splitMediaFromOutput_media_fields:
  "(\<forall>ms. sMediaUrls (splitMediaFromOutput f raw) = Some ms \<longrightarrow>
          ms \<noteq> [] \<and> ms = validCandidates f raw \<and>
          sMediaUrl (splitMediaFromOutput f raw) = Some (hd ms)) \<and>
   (validCandidates f raw = [] \<longrightarrow>
      sMediaUrls (splitMediaFromOutput f raw) = None \<and>
      sMediaUrl (splitMediaFromOutput f raw) = None)"
proof (cases "trim (trimEnd raw) = []")
  case True
  then show ?thesis
    by (simp add: splitMediaFromOutput_def)
next
  case False
  obtain media found kept where cm: "collectMedia f (trimEnd raw) = (media, found, kept)"
    by (cases "collectMedia f (trimEnd raw)")
  have "media = validCandidates f raw"
    using processLines_media [of "f (trimEnd raw)" "splitNl (trimEnd raw)" 0 "[]" False "[]"] cm
    by (simp add: collectMedia_def validCandidates_def)
  then show ?thesis
    using False cm
    by (cases "media = []") (simp_all add: splitMediaFromOutput_def Let_def)
qed

theorem splitMediaFromOutput_media_fields_witness:
  "sMediaUrls (splitMediaFromOutput noFences ''MEDIA: /a'') = Some [''/a''] \<and>
   sMediaUrl (splitMediaFromOutput noFences ''MEDIA: /a'') = Some ''/a'' \<and>
   validCandidates noFences ''hi'' = [] \<and>
   sMediaUrls (splitMediaFromOutput noFences ''hi'') = None \<and>
   sMediaUrl (splitMediaFromOutput noFences ''hi'') = None"
proof -
  have found: "sMediaUrls (splitMediaFromOutput noFences ''MEDIA: /a'') = Some [''/a'']"
    by code_simp
  have none: "validCandidates noFences ''hi'' = []"
    by code_simp
  show ?thesis
    using splitMediaFromOutput_media_fields [of noFences "''MEDIA: /a''"]
      splitMediaFromOutput_media_fields [of noFences "''hi''"] found none
    by simp
qed











section \<open>Properties of the argv handed to the runner\<close>

lemma indexOf_None: "indexOf x xs = None \<longleftrightarrow> x \<notin> set xs"
  by (induction xs) (auto split: option.splits)

lemma indexOf_Some: "indexOf x xs = Some i \<Longrightarrow> i < length xs \<and> xs ! i = x"
  by (induction xs arbitrary: i) (auto split: option.splits if_splits)

lemma hasRpcMode_append_pair: "hasRpcMode (xs @ ''--mode'' # ''rpc'' # ys)"
proof (induction xs)
  case Nil
  then show ?case by simp
next
  case (Cons a xs)
  obtain b rest where split: "xs @ ''--mode'' # ''rpc'' # ys = b # rest"
    by (cases "xs @ ''--mode'' # ''rpc'' # ys") auto
  with Cons show ?case by simp
qed

text \<open>Whenever the first \<open>--mode\<close> has a value, or there is no \<open>--mode\<close>, the argv handed
  to the runner holds the forced pair.\<close>

lemma rpcArgvForRun_forced:
  assumes "\<not> danglingMode (removePrompt finalArgv promptIndex)"
  shows "hasRpcMode (rpcArgvForRun finalArgv promptIndex)"
proof (cases "indexOf ''--mode'' (removePrompt finalArgv promptIndex)")
  case None
  then have "\<not> includesElem (removePrompt finalArgv promptIndex) ''--mode''"
    by (simp add: indexOf_None includesElem_def)
  with None show ?thesis
    by (simp add: rpcArgvForRun_def Let_def hasRpcMode_append_pair)
next
  case (Some i)
  with assms have "truthyAt (removePrompt finalArgv promptIndex) (i + 1)"
    by (simp add: danglingMode_def)
  with Some show ?thesis
    by (simp add: rpcArgvForRun_def Let_def hasRpcMode_append_pair)
qed

text \<open>The logged argv always holds the pair.\<close>

lemma rpcArgvLogged_forced: "hasRpcMode (rpcArgvLogged finalArgv promptIndex)"
proof (cases "indexOf ''--mode'' (removePrompt finalArgv promptIndex)")
  case None
  have "hasRpcMode (removePrompt finalArgv promptIndex @ ''--mode'' # ''rpc'' # [])"
    by (rule hasRpcMode_append_pair)
  with None show ?thesis
    by (simp add: rpcArgvLogged_def Let_def)
next
  case (Some i)
  define copy where "copy = removePrompt finalArgv promptIndex"
  show ?thesis
  proof (cases "truthyAt copy (i + 1)")
    case True
    from Some have i: "i < length copy" "copy ! i = ''--mode''"
      using indexOf_Some [of "''--mode''" copy i] by (simp_all add: copy_def)
    from True have j: "Suc i < length copy"
      by (simp add: truthyAt_def)
    have "copy[Suc i := ''rpc''] = take i copy @ ''--mode'' # ''rpc'' # drop (i + 2) copy"
    proof -
      have "copy[Suc i := ''rpc''] = take (Suc i) copy @ ''rpc'' # drop (Suc (Suc i)) copy"
        using j by (rule upd_conv_take_nth_drop)
      moreover have "take (Suc i) copy = take i copy @ [''--mode'']"
        using i by (simp add: take_Suc_conv_app_nth)
      ultimately show ?thesis by simp
    qed
    then have "hasRpcMode (copy[Suc i := ''rpc''])"
      by (simp add: hasRpcMode_append_pair)
    with Some True show ?thesis
      by (simp add: rpcArgvLogged_def Let_def copy_def)
  next
    case False
    have "hasRpcMode (copy @ ''--mode'' # ''rpc'' # [])"
      by (rule hasRpcMode_append_pair)
    with Some False show ?thesis
      by (simp add: rpcArgvLogged_def Let_def copy_def)
  qed
qed

text \<open>
  C2 fails on the code. With the command \<open>pi -p --mode\<close> and the prompt appended, the
  prompt is removed, the first \<open>--mode\<close> has no value, and \<open>rpcArgvForRun\<close> returns the argv
  unchanged: the runner gets no \<open>--mode rpc\<close>. The argv that is logged for the same run does
  hold the pair.
\<close>

theorem rpcArgvForRun_dangling_mode:
  "rpcArgvForRun [''pi'', ''-p'', ''--mode'', ''hello''] (Some 3) = [''pi'', ''-p'', ''--mode''] \<and>
   \<not> hasRpcMode (rpcArgvForRun [''pi'', ''-p'', ''--mode'', ''hello''] (Some 3)) \<and>
   rpcArgvLogged [''pi'', ''-p'', ''--mode'', ''hello''] (Some 3) =
     [''pi'', ''-p'', ''--mode'', ''--mode'', ''rpc'']"
  by (simp add: rpcArgvForRun_def rpcArgvLogged_def removePrompt_def truthyAt_def
        includesElem_def Let_def)

section \<open>Properties of the stream reducer\<close>

lemma flushPendingTool_named:
  assumes "hasOnPartialReply cfg" "pendingToolName st = Some n" "n \<noteq> []"
  shows "flushPendingTool cfg st =
           st\<lparr>sent := sent st @ [aggregatePayload cfg n (pendingMetas st)],
              streamedAny := True, pendingToolName := None, pendingMetas := [],
              pendingTimer := False\<rparr>"
  using assms by (simp add: flushPendingTool_def truthy_def aggregatePayload_def)

lemma flushPendingTool_idle:
  assumes "pendingToolName st = None" "pendingMetas st = []"
  shows "flushPendingTool cfg st = st"
  using assms by (simp add: flushPendingTool_def truthy_def)



text \<open>
  C3 as stated fails. The debounce timer is set after every result and flushes the pending
  aggregate when it fires: if it fires between the two \<open>bash\<close> results, the run flushes
  three aggregates, the first holding one meta. And with a threshold of one the same four
  results are flushed one by one.
\<close>

theorem tool_results_AABB_counterexample:
  "sent (runStream plainCfg [ToolResult (Some ''bash'') (Some ''ls''),
                             DebounceElapsed,
                             ToolResult (Some ''bash'') (Some ''pwd''),
                             ToolResult (Some ''read'') (Some ''a.txt''),
                             ToolResult (Some ''read'') (Some ''b.txt'')]) =
     [aggregatePayload plainCfg ''bash'' [''ls''],
      aggregatePayload plainCfg ''bash'' [''pwd''],
      aggregatePayload plainCfg ''read'' [''a.txt'', ''b.txt'']] \<and>
   sent (runStream eagerCfg [ToolResult (Some ''bash'') (Some ''ls''),
                             ToolResult (Some ''bash'') (Some ''pwd''),
                             ToolResult (Some ''read'') (Some ''a.txt''),
                             ToolResult (Some ''read'') (Some ''b.txt'')]) =
     [aggregatePayload eagerCfg ''bash'' [''ls''],
      aggregatePayload eagerCfg ''bash'' [''pwd''],
      aggregatePayload eagerCfg ''read'' [''a.txt''],
      aggregatePayload eagerCfg ''read'' [''b.txt'']]"
proof -
  have plain: "hasOnPartialReply plainCfg" "toolResultFlushCount plainCfg = 5"
    by (simp_all add: plainCfg_def)
  have eager: "hasOnPartialReply eagerCfg" "toolResultFlushCount eagerCfg = 1"
    by (simp_all add: eagerCfg_def plainCfg_def)
  have timer: "sent (runStream plainCfg [ToolResult (Some ''bash'') (Some ''ls''),
                             DebounceElapsed,
                             ToolResult (Some ''bash'') (Some ''pwd''),
                             ToolResult (Some ''read'') (Some ''a.txt''),
                             ToolResult (Some ''read'') (Some ''b.txt'')]) =
     [aggregatePayload plainCfg ''bash'' [''ls''],
      aggregatePayload plainCfg ''bash'' [''pwd''],
      aggregatePayload plainCfg ''read'' [''a.txt'', ''b.txt'']]"
    using plain
    by (simp add: runStream_def onToolResult_def flushPendingTool_def truthy_def
          initialStream_def aggregatePayload_def Let_def)
  have one: "sent (runStream eagerCfg [ToolResult (Some ''bash'') (Some ''ls''),
                             ToolResult (Some ''bash'') (Some ''pwd''),
                             ToolResult (Some ''read'') (Some ''a.txt''),
                             ToolResult (Some ''read'') (Some ''b.txt'')]) =
     [aggregatePayload eagerCfg ''bash'' [''ls''],
      aggregatePayload eagerCfg ''bash'' [''pwd''],
      aggregatePayload eagerCfg ''read'' [''a.txt''],
      aggregatePayload eagerCfg ''read'' [''b.txt'']]"
    using eager
    by (simp add: runStream_def onToolResult_def flushPendingTool_def truthy_def
          initialStream_def aggregatePayload_def Let_def)
  show ?thesis
    using timer one by (rule conjI)
qed

section \<open>Properties of the reply path\<close>

text \<open>
  C9. When the runner returns with a non-zero exit code, the reply result holds exactly
  one payload: a text that names the exit code and the signal, followed by at most 500
  characters of the captured output (and an ellipsis when it was cut). The function
  returns a result for every outcome of the run; a rejection of the run is the \<open>Inl\<close>
  case and also yields a result.
\<close>

theorem nonzero_exit_single_payload:
  assumes "exitCode rr = Some c" and "c \<noteq> 0"
  shows "payloads (finishReply env params didStream (Inr rr)) =
           [\<lparr>pText = Some (warningSign @ '' Command exited with code '' @ showInt c
                @ (if truthy (signal rr) then '' ('' @ the (signal rr) @ '')'' else [])
                @ (if summarySourceOf env rr \<noteq> []
                   then [nl, nl] @ ''Output: '' @ take 500 (summarySourceOf env rr)
                        @ (if length (summarySourceOf env rr) > 500 then ''...'' else [])
                   else [])),
             pMediaUrl = None, pMediaUrls = None\<rparr>] \<and>
         length (take 500 (summarySourceOf env rr)) \<le> 500 \<and>
         metaExitCode (finishReply env params didStream (Inr rr)) = Some c"
  using assms
  by (simp add: finishReply_def afterRun_def exitErrorText_def textPayload_def codeText_def
        summarySourceOf_def Let_def)

theorem nonzero_exit_single_payload_witness:
  "payloads (finishReply rawEnv (paramsFor ''hi'') False (Inr (printed ''boom'' (Some 2)))) =
     [\<lparr>pText = Some (warningSign @ '' Command exited with code 2'' @ [nl, nl] @ ''Output: boom''),
       pMediaUrl = None, pMediaUrls = None\<rparr>]"
proof -
  have src: "summarySourceOf rawEnv (printed ''boom'' (Some 2)) = ''boom''"
    by (simp add: summarySourceOf_def rpcAssistantTextOf_def trimmedOf_def rawEnv_def printed_def
          trim_def trimStart_def trimEnd_def isSpace_def)
  have two: "showInt 2 = ''2''"
    by (simp add: showInt_def)
  show ?thesis
    using nonzero_exit_single_payload [of "printed ''boom'' (Some 2)" 2 rawEnv "paramsFor ''hi''" False]
      src two
    by (simp add: printed_def truthy_def)
qed







section \<open>Properties of the abort path\<close>

lemma resolveAbortTargetKey_truthy: "resolveAbortTargetKey ctx = Some k \<Longrightarrow> k \<noteq> []"
  by (auto simp: resolveAbortTargetKey_def trimmedOrNone_def split: option.splits if_splits)

text \<open>
  C4. For an abort request with a target key: when the key resolves to a persisted entry
  (directly or through the legacy key), that entry is stored back under the resolved key
  with \<open>abortedLastRun = true\<close> and \<open>updatedAt\<close> set to the current time, the store is
  saved once and the abort memory is untouched, whether or not a run was live; \<open>aborted\<close>
  is reported exactly when the entry has a session id and \<open>abortEmbeddedPiRun\<close> signalled
  its run. When the key resolves to no entry, the store is neither changed nor saved,
  the target key is set in the abort memory, and \<open>aborted = false\<close> is reported.
\<close>

theorem abort_stamps_or_remembers:
  assumes req: "isAbortRequest ctx"
      and key: "resolveAbortTargetKey ctx = Some tk"
      and run: "tryFastAbortFromMessage env ctx w = (res, w')"
  shows "(\<forall>entry k. resolveSessionEntryForKey (legacyRestOf env) (Some (sessionStore w)) (Some tk)
                      = Some (entry, k) \<longrightarrow>
            sessionStore w' = (sessionStore w)(k \<mapsto> entry\<lparr>abortedLastRun := True,
                                                          updatedAt := dateNow env\<rparr>) \<and>
            storeSaves w' = storeSaves w + 1 \<and>
            abortMemory w' = abortMemory w \<and>
            handled res \<and>
            (aborted res \<longleftrightarrow> truthy (sessionId entry) \<and> runAborted env (the (sessionId entry))) \<and>
            abortCalls w' = abortCalls w @ (if truthy (sessionId entry) then [the (sessionId entry)] else [])) \<and>
         (resolveSessionEntryForKey (legacyRestOf env) (Some (sessionStore w)) (Some tk) = None \<longrightarrow>
            sessionStore w' = sessionStore w \<and>
            storeSaves w' = storeSaves w \<and>
            abortMemory w' = (abortMemory w)(tk \<mapsto> True) \<and>
            abortCalls w' = abortCalls w \<and>
            handled res \<and> \<not> aborted res)"
proof -
  have tk: "tk \<noteq> []"
    using key by (rule resolveAbortTargetKey_truthy)
  show ?thesis
  proof (cases "resolveSessionEntryForKey (legacyRestOf env) (Some (sessionStore w)) (Some tk)")
    case None
    with req key run tk show ?thesis
      by (auto simp: tryFastAbortFromMessage_def isAbortRequest_def Let_def truthy_def
            firstDefined_def orElse_def setAbortMemory_def)
  next
    case (Some found)
    obtain entry k where found: "found = (entry, k)" by (cases found)
    with Some req key run tk show ?thesis
      by (auto simp: tryFastAbortFromMessage_def isAbortRequest_def Let_def truthy_def
            firstDefined_def orElse_def)
  qed
qed

theorem abort_stamps_or_remembers_witness:
  "tryFastAbortFromMessage plainAbortEnv (stopRequest ''agent:main:main'') oneSession =
     (\<lparr>handled = True, aborted = False\<rparr>,
      \<lparr>sessionStore = [''main'' \<mapsto> \<lparr>sessionId = Some ''idle'', abortedLastRun = True, updatedAt = 2000\<rparr>],
       storeSaves = 1, abortMemory = Map.empty, abortCalls = [''idle'']\<rparr>) \<and>
   abortMemory (snd (tryFastAbortFromMessage plainAbortEnv (stopRequest ''other'') oneSession)) =
     [''other'' \<mapsto> True]"
proof -
  have req: "isAbortRequest (stopRequest k)" for k
    by (simp add: isAbortRequest_def stopRequest_def isAbortTrigger_def truthy_def
          ABORT_TRIGGERS_def trim_def trimStart_def trimEnd_def isSpace_def toLowerCase_def
          toLowerChar_def upperLatin1_def lowerLatin1_def)
  have key1: "resolveAbortTargetKey (stopRequest ''agent:main:main'') = Some ''agent:main:main''"
    by (simp add: resolveAbortTargetKey_def trimmedOrNone_def stopRequest_def trim_def
          trimStart_def trimEnd_def isSpace_def)
  have key2: "resolveAbortTargetKey (stopRequest ''other'') = Some ''other''"
    by (simp add: resolveAbortTargetKey_def trimmedOrNone_def stopRequest_def trim_def
          trimStart_def trimEnd_def isSpace_def)
  have res1: "resolveSessionEntryForKey (legacyRestOf plainAbortEnv) (Some (sessionStore oneSession))
                (Some ''agent:main:main'') =
              Some (\<lparr>sessionId = Some ''idle'', abortedLastRun = False, updatedAt = 1\<rparr>, ''main'')"
    by (simp add: resolveSessionEntryForKey_def plainAbortEnv_def oneSession_def truthy_def
          startsWith_def Let_def)
  have res2: "resolveSessionEntryForKey (legacyRestOf plainAbortEnv) (Some (sessionStore oneSession))
                (Some ''other'') = None"
    by (simp add: resolveSessionEntryForKey_def plainAbortEnv_def oneSession_def truthy_def
          startsWith_def Let_def)
  obtain r1 w1 where run1:
    "tryFastAbortFromMessage plainAbortEnv (stopRequest ''agent:main:main'') oneSession = (r1, w1)"
    by (cases "tryFastAbortFromMessage plainAbortEnv (stopRequest ''agent:main:main'') oneSession")
  obtain r2 w2 where run2:
    "tryFastAbortFromMessage plainAbortEnv (stopRequest ''other'') oneSession = (r2, w2)"
    by (cases "tryFastAbortFromMessage plainAbortEnv (stopRequest ''other'') oneSession")
  have "r1 = \<lparr>handled = True, aborted = False\<rparr>"
    using abort_stamps_or_remembers [OF req key1 run1] res1
    by (simp add: truthy_def plainAbortEnv_def)
  moreover have "w1 = \<lparr>sessionStore = [''main'' \<mapsto> \<lparr>sessionId = Some ''idle'', abortedLastRun = True, updatedAt = 2000\<rparr>],
       storeSaves = 1, abortMemory = Map.empty, abortCalls = [''idle'']\<rparr>"
    using abort_stamps_or_remembers [OF req key1 run1] res1
    by (simp add: truthy_def plainAbortEnv_def oneSession_def)
  moreover have "abortMemory w2 = [''other'' \<mapsto> True]"
    using abort_stamps_or_remembers [OF req key2 run2] res2
    by (simp add: oneSession_def)
  ultimately show ?thesis
    using run1 run2 by simp
qed

section \<open>Properties of the cron store\<close>

lemma needsReload_iff: "needsReload st (fileMtimeMs d) \<longleftrightarrow> store st = None \<or> mtimeAdvanced st d"
  by (auto simp: needsReload_def mtimeAdvanced_def split: option.splits)

lemma persist_store: "persist env st d = (st', d') \<Longrightarrow> store st' = store st"
  by (auto simp: persist_def getFileMtimeMs_def Let_def split: option.splits)

lemma persist_log:
  "persist env st d = (st', d') \<Longrightarrow> LoadStore \<in> set (ioLog d') \<longleftrightarrow> LoadStore \<in> set (ioLog d)"
  by (auto simp: persist_def getFileMtimeMs_def saveCronStore_def logIO_def Let_def
           split: option.splits)

lemma ensureLoaded_skip:
  "\<not> needsReload st (fileMtimeMs d) \<Longrightarrow> ensureLoaded env st d = (st, logIO Stat d)"
  by (simp add: ensureLoaded_def getFileMtimeMs_def)

lemma ensureLoaded_loaded:
  assumes "ensureLoaded env st d = (st', d')"
  shows "store st' \<noteq> None"
proof (cases "needsReload st (fileMtimeMs d)")
  case False
  with assms show ?thesis
    by (auto simp: ensureLoaded_skip needsReload_def)
next
  case True
  with assms show ?thesis
    by (auto simp: ensureLoaded_def getFileMtimeMs_def loadCronStore_def Let_def
             split: prod.splits if_splits dest!: persist_store)
qed

lemma ensureLoaded_newIO:
  "LoadStore \<in> set (newIO d (snd (ensureLoaded env st d))) \<longleftrightarrow> needsReload st (fileMtimeMs d)"
proof (cases "needsReload st (fileMtimeMs d)")
  case False
  then show ?thesis
    by (simp add: ensureLoaded_skip newIO_def logIO_def)
next
  case True
  obtain js mutated where nj: "normalizeJobs env (case fileJobs d of None \<Rightarrow> [] | Some l \<Rightarrow> l) False = (js, mutated)"
    by (cases "normalizeJobs env (case fileJobs d of None \<Rightarrow> [] | Some l \<Rightarrow> l) False") auto
  show ?thesis
    using True nj
    by (cases mutated)
       (simp_all add: ensureLoaded_def getFileMtimeMs_def loadCronStore_def persist_def
          saveCronStore_def newIO_def logIO_def Let_def)
qed

text \<open>
  C7. Once \<open>ensureLoaded\<close> has completed, a further call that observes a modification time
  not greater than the cached one only stats the file: it reads nothing and returns the
  state (the store with every job and its \<open>nextRunAtMs\<close>, the cached times) unchanged.
  A call reads the store file exactly when the store was never loaded or the observed
  modification time is strictly greater than the cached one.
\<close>

theorem ensureLoaded_reload_policy:
  assumes "ensureLoaded env st0 d0 = (st1, d1)"
  shows "(\<not> mtimeAdvanced st1 d2 \<longrightarrow>
            ensureLoaded env st1 d2 = (st1, logIO Stat d2) \<and>
            LoadStore \<notin> set (newIO d2 (snd (ensureLoaded env st1 d2)))) \<and>
         (LoadStore \<in> set (newIO d (snd (ensureLoaded env st d))) \<longleftrightarrow>
            store st = None \<or> mtimeAdvanced st d)"
proof -
  have loaded: "store st1 \<noteq> None"
    using assms by (rule ensureLoaded_loaded)
  have skip: "ensureLoaded env st1 d2 = (st1, logIO Stat d2)" if "\<not> mtimeAdvanced st1 d2"
    using that loaded by (intro ensureLoaded_skip) (simp add: needsReload_iff)
  have quiet: "LoadStore \<notin> set (newIO d2 (snd (ensureLoaded env st1 d2)))" if "\<not> mtimeAdvanced st1 d2"
    using that loaded by (simp add: ensureLoaded_newIO needsReload_iff)
  show ?thesis
    using skip quiet by (simp add: ensureLoaded_newIO needsReload_iff)
qed

theorem ensureLoaded_reload_policy_witness:
  "ensureLoaded plainEnv neverLoaded (diskWith [dailyJob] 40) =
     (\<lparr>store = Some \<lparr>version = 1, jobs = [dailyJob]\<rparr>, storeLoadedAtMs = Some 1000,
       storeFileMtimeMs = Some 40\<rparr>,
      \<lparr>fileJobs = Some [dailyJob], fileMtimeMs = Some 40, ioLog = [Stat, LoadStore]\<rparr>) \<and>
   ensureLoaded plainEnv
     \<lparr>store = Some \<lparr>version = 1, jobs = [dailyJob]\<rparr>, storeLoadedAtMs = Some 1000,
      storeFileMtimeMs = Some 40\<rparr> (diskWith [] 40) =
     (\<lparr>store = Some \<lparr>version = 1, jobs = [dailyJob]\<rparr>, storeLoadedAtMs = Some 1000,
       storeFileMtimeMs = Some 40\<rparr>,
      \<lparr>fileJobs = Some [], fileMtimeMs = Some 40, ioLog = [Stat]\<rparr>)"
proof -
  have first: "ensureLoaded plainEnv neverLoaded (diskWith [dailyJob] 40) =
     (\<lparr>store = Some \<lparr>version = 1, jobs = [dailyJob]\<rparr>, storeLoadedAtMs = Some 1000,
       storeFileMtimeMs = Some 40\<rparr>,
      \<lparr>fileJobs = Some [dailyJob], fileMtimeMs = Some 40, ioLog = [Stat, LoadStore]\<rparr>)"
    by (simp add: ensureLoaded_def getFileMtimeMs_def loadCronStore_def needsReload_def
          neverLoaded_def diskWith_def logIO_def plainEnv_def dailyJob_def normalizeJob_def
          normalizeName_def normalizeDescription_def normalizePayload_def sameDescription_def
          trim_def trimStart_def trimEnd_def isSpace_def Let_def)
  show ?thesis
    using ensureLoaded_reload_policy [OF first, of "diskWith [] 40"] first
    by (simp add: mtimeAdvanced_def diskWith_def logIO_def)
qed

text \<open>The three normalisations that set \<open>mutated\<close>: an inferred name, a description that
  differs from its normal form, and a payload the migration reports as changed.\<close>

lemma normalizeJob_mutated:
  "snd (normalizeJob env raw) \<longleftrightarrow>
     snd (normalizeName env raw) \<or>
     snd (normalizeDescription env (fst (normalizeName env raw))) \<or>
     snd (normalizePayload env (fst (normalizeDescription env (fst (normalizeName env raw)))))"
  by (simp add: normalizeJob_def Let_def split: prod.splits)

lemma normalizeName_mutated:
  "snd (normalizeName env raw) \<longleftrightarrow>
     (case map_of raw ''name'' of Some (JStr nameRaw) \<Rightarrow> trim nameRaw = [] | _ \<Rightarrow> True)"
  by (simp add: normalizeName_def split: option.splits json.splits)

text \<open>A name that is not blank is replaced by its trimmed form, and \<open>mutated\<close> is left
  as it was, whatever the collaborators do.\<close>

lemma normalizeName_trims_silently:
  assumes "map_of raw ''name'' = Some (JStr nameRaw)" and "trim nameRaw \<noteq> []"
  shows "normalizeName env raw = (AList.update ''name'' (JStr (trim nameRaw)) raw, False)"
  using assms by (simp add: normalizeName_def)

lemma normalizeJobs_mutated:
  "snd (normalizeJobs env js m) \<longleftrightarrow> m \<or> list_ex (\<lambda>raw. snd (normalizeJob env raw)) js"
proof (induction js arbitrary: m)
  case Nil
  then show ?case by simp
next
  case (Cons raw rest)
  obtain raw' m' where one: "normalizeJob env raw = (raw', m')"
    by (cases "normalizeJob env raw")
  obtain rest' out where more: "normalizeJobs env rest (m \<or> m') = (rest', out)"
    by (cases "normalizeJobs env rest (m \<or> m')")
  have "out \<longleftrightarrow> (m \<or> m') \<or> list_ex (\<lambda>raw. snd (normalizeJob env raw)) rest"
    using Cons.IH [of "m \<or> m'"] more by simp
  then show ?case
    using one more by simp
qed

text \<open>A load that set \<open>mutated\<close> saves the store at once: the file then holds the jobs as
  they are in memory, and the cached modification time is that of the write.\<close>

lemma ensureLoaded_dirty_persists:
  assumes "needsReload st (fileMtimeMs d)"
      and "snd (normalizeJobs env (case fileJobs d of None \<Rightarrow> [] | Some l \<Rightarrow> l) False)"
      and "ensureLoaded env st d = (st', d')"
  shows "newIO d d' = [Stat, LoadStore, SaveStore, Stat] \<and>
         map_option jobs (store st') = fileJobs d' \<and>
         storeFileMtimeMs st' = Some (writeMtimeMs env)"
proof -
  obtain js mutated where nj:
    "normalizeJobs env (case fileJobs d of None \<Rightarrow> [] | Some l \<Rightarrow> l) False = (js, mutated)"
    by (cases "normalizeJobs env (case fileJobs d of None \<Rightarrow> [] | Some l \<Rightarrow> l) False")
  with assms(2) have mutated by simp
  with assms(1,3) nj show ?thesis
    by (auto simp: ensureLoaded_def getFileMtimeMs_def loadCronStore_def persist_def
          saveCronStore_def newIO_def logIO_def Let_def)
qed

text \<open>
  C8 fails on the code. A job stored with the name \<open>" daily "\<close> is loaded with the name
  \<open>"daily"\<close>: the record is mutated, but the branch that trims a name does not set
  \<open>mutated\<close>, so nothing is saved. After the load the file still holds the padded name and
  differs from the store in memory.
\<close>

theorem ensureLoaded_trimmed_name_not_persisted:
  "ensureLoaded plainEnv neverLoaded (diskWith [paddedJob] 40) =
     (\<lparr>store = Some \<lparr>version = 1, jobs = [dailyJob]\<rparr>, storeLoadedAtMs = Some 1000,
       storeFileMtimeMs = Some 40\<rparr>,
      \<lparr>fileJobs = Some [paddedJob], fileMtimeMs = Some 40, ioLog = [Stat, LoadStore]\<rparr>) \<and>
   paddedJob \<noteq> dailyJob"
  by (simp add: ensureLoaded_def getFileMtimeMs_def loadCronStore_def needsReload_def
        neverLoaded_def diskWith_def logIO_def plainEnv_def dailyJob_def paddedJob_def
        normalizeJob_def normalizeName_def normalizeDescription_def normalizePayload_def
        sameDescription_def trim_def trimStart_def trimEnd_def isSpace_def Let_def)

end
